theory Spec2Isabelle
  imports Complex_Main "HOL-Library.Word"
begin

unbundle bit_operations_syntax

section \<open>Python strings\<close>

text \<open>
  A Python \<open>str\<close> is modelled as a \<open>string\<close> in which every \<open>char\<close> stands for one
  code point (the code points 0 to 255), so that \<open>length\<close> and \<open>take\<close> count what
  \<open>len\<close> and slicing count in the source.  The helpers below are the methods of \<open>str\<close>
  that the modelled functions call.
\<close>

definition isspace :: "char \<Rightarrow> bool" where
  \<comment> \<open>the white space of \<open>str.strip()\<close> and \<open>str.split()\<close> among the first 256 code points\<close>
  "isspace c =
     (let n = (of_char c :: nat)
      in (9 \<le> n \<and> n \<le> 13) \<or> (28 \<le> n \<and> n \<le> 32) \<or> n = 133 \<or> n = 160)"

definition strip :: "string \<Rightarrow> string" where
  "strip s = rev (dropWhile isspace (rev (dropWhile isspace s)))"

definition lower_char :: "char \<Rightarrow> char" where
  "lower_char c =
     (let n = (of_char c :: nat)
      in if (65 \<le> n \<and> n \<le> 90) \<or> (192 \<le> n \<and> n \<le> 222 \<and> n \<noteq> 215)
         then char_of (n + 32) else c)"

definition lower :: "string \<Rightarrow> string" where
  "lower s = map lower_char s"

fun startswith :: "string \<Rightarrow> string \<Rightarrow> bool" where
  "startswith s [] = True"
| "startswith [] (p # ps) = False"
| "startswith (c # cs) (p # ps) = (c = p \<and> startswith cs ps)"

fun contains :: "string \<Rightarrow> string \<Rightarrow> bool" where
  \<comment> \<open>\<open>contains s kw\<close> is Python's \<open>kw in s\<close>\<close>
  "contains [] kw = (kw = [])"
| "contains (c # cs) kw = (startswith (c # cs) kw \<or> contains cs kw)"

fun join :: "string \<Rightarrow> string list \<Rightarrow> string" where
  \<comment> \<open>\<open>join sep xs\<close> is Python's \<open>sep.join(xs)\<close>\<close>
  "join sep [] = []"
| "join sep [x] = x"
| "join sep (x # y # ys) = x @ sep @ join sep (y # ys)"

fun split_ws_aux :: "string \<Rightarrow> string \<Rightarrow> string list" where
  "split_ws_aux cur [] = (if cur = [] then [] else [rev cur])"
| "split_ws_aux cur (c # cs) =
     (if isspace c then (if cur = [] then split_ws_aux [] cs else rev cur # split_ws_aux [] cs)
      else split_ws_aux (c # cur) cs)"

definition split_ws :: "string \<Rightarrow> string list" where
  \<comment> \<open>\<open>s.split()\<close>: the maximal runs of characters that are not white space\<close>
  "split_ws s = split_ws_aux [] s"

fun split_on_aux :: "char \<Rightarrow> string \<Rightarrow> string \<Rightarrow> string list" where
  "split_on_aux d cur [] = [rev cur]"
| "split_on_aux d cur (c # cs) =
     (if c = d then rev cur # split_on_aux d [] cs else split_on_aux d (c # cur) cs)"

definition split_on :: "char \<Rightarrow> string \<Rightarrow> string list" where
  \<comment> \<open>\<open>s.split(d)\<close> for a one-character separator: never empty, \<open>''''.split(d) = ['''']\<close>\<close>
  "split_on d s = split_on_aux d [] s"

fun remove_all_aux :: "nat \<Rightarrow> string \<Rightarrow> string \<Rightarrow> string" where
  \<comment> \<open>the counter is the number of characters still to skip of the occurrence just found\<close>
  "remove_all_aux k old [] = []"
| "remove_all_aux (Suc k) old (c # cs) = remove_all_aux k old cs"
| "remove_all_aux 0 old (c # cs) =
     (if old \<noteq> [] \<and> startswith (c # cs) old then remove_all_aux (length old - 1) old cs
      else c # remove_all_aux 0 old cs)"

definition remove_all :: "string \<Rightarrow> string \<Rightarrow> string" where
  \<comment> \<open>\<open>remove_all old s\<close> is \<open>s.replace(old, '''')\<close>: the occurrences of \<open>old\<close> are removed
      from left to right without overlap; with \<open>old\<close> empty the string is returned as it is\<close>
  "remove_all old s = remove_all_aux 0 old s"

section \<open>The MD5 digest\<close>

text \<open>
  \<open>hashlib.md5(data).hexdigest()\<close> of the Python standard library, after RFC 1321:
  the message is padded to a multiple of 64 bytes, each block updates four 32-bit
  words in 64 steps, and the digest is their little-endian bytes in lower-case
  hexadecimal.
\<close>

type_synonym byte = "8 word"
type_synonym u32 = "32 word"

definition md5_K :: "u32 list" where
  "md5_K = [
    0xd76aa478, 0xe8c7b756, 0x242070db, 0xc1bdceee, 0xf57c0faf, 0x4787c62a, 0xa8304613, 0xfd469501,
    0x698098d8, 0x8b44f7af, 0xffff5bb1, 0x895cd7be, 0x6b901122, 0xfd987193, 0xa679438e, 0x49b40821,
    0xf61e2562, 0xc040b340, 0x265e5a51, 0xe9b6c7aa, 0xd62f105d, 0x02441453, 0xd8a1e681, 0xe7d3fbc8,
    0x21e1cde6, 0xc33707d6, 0xf4d50d87, 0x455a14ed, 0xa9e3e905, 0xfcefa3f8, 0x676f02d9, 0x8d2a4c8a,
    0xfffa3942, 0x8771f681, 0x6d9d6122, 0xfde5380c, 0xa4beea44, 0x4bdecfa9, 0xf6bb4b60, 0xbebfbc70,
    0x289b7ec6, 0xeaa127fa, 0xd4ef3085, 0x04881d05, 0xd9d4d039, 0xe6db99e5, 0x1fa27cf8, 0xc4ac5665,
    0xf4292244, 0x432aff97, 0xab9423a7, 0xfc93a039, 0x655b59c3, 0x8f0ccc92, 0xffeff47d, 0x85845dd1,
    0x6fa87e4f, 0xfe2ce6e0, 0xa3014314, 0x4e0811a1, 0xf7537e82, 0xbd3af235, 0x2ad7d2bb, 0xeb86d391]"

definition md5_S :: "nat list" where
  "md5_S = [
    7, 12, 17, 22, 7, 12, 17, 22, 7, 12, 17, 22, 7, 12, 17, 22,
    5, 9, 14, 20, 5, 9, 14, 20, 5, 9, 14, 20, 5, 9, 14, 20,
    4, 11, 16, 23, 4, 11, 16, 23, 4, 11, 16, 23, 4, 11, 16, 23,
    6, 10, 15, 21, 6, 10, 15, 21, 6, 10, 15, 21, 6, 10, 15, 21]"

definition md5_F :: "nat \<Rightarrow> u32 \<Rightarrow> u32 \<Rightarrow> u32 \<Rightarrow> u32" where
  "md5_F i b c d =
     (if i < 16 then (b AND c) OR (NOT b AND d)
      else if i < 32 then (d AND b) OR (NOT d AND c)
      else if i < 48 then b XOR c XOR d
      else c XOR (b OR NOT d))"

definition md5_g :: "nat \<Rightarrow> nat" where
  "md5_g i =
     (if i < 16 then i
      else if i < 32 then (5 * i + 1) mod 16
      else if i < 48 then (3 * i + 5) mod 16
      else (7 * i) mod 16)"

fun md5_step :: "u32 list \<Rightarrow> nat \<Rightarrow> u32 \<times> u32 \<times> u32 \<times> u32 \<Rightarrow> u32 \<times> u32 \<times> u32 \<times> u32" where
  "md5_step m i (a, b, c, d) =
     (let f = md5_F i b c d + a + md5_K ! i + m ! md5_g i
      in (d, b + word_rotl (md5_S ! i) f, b, c))"

definition le_word :: "byte list \<Rightarrow> u32" where
  "le_word bs = foldr (\<lambda>b w. ucast b OR push_bit 8 w) bs 0"

definition le_words :: "byte list \<Rightarrow> u32 list" where
  "le_words blk = map (\<lambda>j. le_word (take 4 (drop (4 * j) blk))) [0..<16]"

fun md5_block :: "u32 \<times> u32 \<times> u32 \<times> u32 \<Rightarrow> byte list \<Rightarrow> u32 \<times> u32 \<times> u32 \<times> u32" where
  "md5_block (a0, b0, c0, d0) blk =
     (case fold (md5_step (le_words blk)) [0..<64] (a0, b0, c0, d0) of
        (a, b, c, d) \<Rightarrow> (a0 + a, b0 + b, c0 + c, d0 + d))"

primrec md5_blocks :: "nat \<Rightarrow> u32 \<times> u32 \<times> u32 \<times> u32 \<Rightarrow> byte list \<Rightarrow> u32 \<times> u32 \<times> u32 \<times> u32" where
  "md5_blocks 0 st bs = st"
| "md5_blocks (Suc n) st bs = md5_blocks n (md5_block st (take 64 bs)) (drop 64 bs)"

primrec le_bytes :: "nat \<Rightarrow> 'a::len word \<Rightarrow> byte list" where
  "le_bytes 0 w = []"
| "le_bytes (Suc k) w = ucast w # le_bytes k (drop_bit 8 w)"

definition md5_pad :: "byte list \<Rightarrow> byte list" where
  \<comment> \<open>a byte 0x80, zeros up to 56 modulo 64, then the bit length as 64 bits, little-endian\<close>
  "md5_pad bs =
     bs @ [0x80] @ replicate ((119 - length bs mod 64) mod 64) 0
        @ le_bytes 8 (8 * of_nat (length bs) :: 64 word)"

definition hex_digit :: "nat \<Rightarrow> char" where
  "hex_digit n = ''0123456789abcdef'' ! n"

definition hex_byte :: "byte \<Rightarrow> string" where
  "hex_byte b = [hex_digit (unat b div 16), hex_digit (unat b mod 16)]"

definition md5_hexdigest :: "byte list \<Rightarrow> string" where
  "md5_hexdigest bs =
     (let p = md5_pad bs in
      case md5_blocks (length p div 64) (0x67452301, 0xefcdab89, 0x98badcfe, 0x10325476) p of
        (a, b, c, d) \<Rightarrow> concat (map hex_byte (concat (map (le_bytes 4) [a, b, c, d]))))"

definition encode :: "string \<Rightarrow> byte list" where
  \<comment> \<open>\<open>str.encode()\<close>: UTF-8, one byte below 128 and two bytes from 128 to 255\<close>
  "encode s =
     concat (map (\<lambda>c. let n = (of_char c :: nat)
                       in if n < 128 then [of_nat n]
                          else [of_nat (192 + n div 64), of_nat (128 + n mod 64)]) s)"

section \<open>Data model\<close>

text \<open>
  The dataclasses of \<open>agent.py\<close>.  \<open>Update.impact\<close> is named \<open>upd_impact\<close> here, since
  \<open>Analysis\<close> has a field \<open>impact\<close> too; no modelled function reads it.
\<close>

record Update =
  title :: string
  content :: string
  source_type :: string
  url :: string
  date :: "string option"
  upd_impact :: string
  detected_at :: string

definition mk_update ::
    "string \<Rightarrow> string \<Rightarrow> string \<Rightarrow> string \<Rightarrow> string \<Rightarrow> string option \<Rightarrow> Update" where
  \<comment> \<open>\<open>Update(title=..., content=..., source_type=..., url=..., date=...)\<close> with the defaults
      of the dataclass; \<open>now\<close> is what \<open>datetime.now().isoformat()\<close> gives at the call\<close>
  "mk_update now t c s u d =
     \<lparr> title = t, content = c, source_type = s, url = u, date = d,
       upd_impact = ''Medium'', detected_at = now \<rparr>"

section \<open>Change detection (MonitoringEngine)\<close>

definition fingerprint :: "Update \<Rightarrow> string" where
  \<comment> \<open>\<open>hashlib.md5(f"{u.title}{u.content[:100]}".encode()).hexdigest()\<close>\<close>
  "fingerprint u = md5_hexdigest (encode (title u @ take 100 (content u)))"

type_synonym cache = "string \<rightharpoonup> string list"

definition cache_key :: "string \<Rightarrow> string" where
  "cache_key competitor_name = ''competitor_'' @ competitor_name"

definition cache_get :: "cache \<Rightarrow> string \<Rightarrow> string list" where
  \<comment> \<open>\<open>self.cache.get(cache_key, [])\<close>\<close>
  "cache_get c k = (case c k of None \<Rightarrow> [] | Some hs \<Rightarrow> hs)"

definition filter_new_updates :: "cache \<Rightarrow> string \<Rightarrow> Update list \<Rightarrow> Update list" where
  "filter_new_updates c competitor_name updates =
     (let seen_hashes = set (cache_get c (cache_key competitor_name))
      in filter (\<lambda>u. fingerprint u \<notin> seen_hashes) updates)"

definition update_cache :: "cache \<Rightarrow> string \<Rightarrow> Update list \<Rightarrow> cache" where
  \<comment> \<open>\<open>self.cache[cache_key] = update_hashes[:100]\<close>; the cache file written by
      \<open>save_cache\<close> is the cache itself\<close>
  "update_cache c competitor_name updates =
     c(cache_key competitor_name \<mapsto> take 100 (map fingerprint updates))"

section \<open>Python lists, dicts and exceptions\<close>

definition slice_index :: "nat \<Rightarrow> int \<Rightarrow> nat" where
  \<comment> \<open>a slice bound on a list of length \<open>n\<close>: negative bounds count from the end, and
      bounds are clamped to the list\<close>
  "slice_index n i = (if i < 0 then nat (max 0 (int n + i)) else min n (nat i))"

definition py_slice :: "'a list \<Rightarrow> int option \<Rightarrow> int option \<Rightarrow> 'a list" where
  \<comment> \<open>\<open>xs[lo:hi]\<close>, with \<open>None\<close> for an omitted bound\<close>
  "py_slice xs lo hi =
     (let n = length xs;
          a = (case lo of None \<Rightarrow> 0 | Some i \<Rightarrow> slice_index n i);
          b = (case hi of None \<Rightarrow> n | Some j \<Rightarrow> slice_index n j)
      in take (b - a) (drop a xs))"

datatype py_exception =
    KeyError string
  | AttributeError string
  | Timeout
  | RequestException string
  | Exception string

text \<open>
  A \<open>dict\<close> with string keys is an association list in insertion order with distinct
  keys.  \<open>d[k] += 1\<close> on a \<open>defaultdict(int)\<close> starts an absent key at 0; on a plain
  \<open>dict\<close> (what \<open>json.load\<close> returns) it raises \<open>KeyError\<close> for an absent key.
\<close>

type_synonym counts = "(string \<times> int) list"

fun dict_set :: "('k \<times> 'v) list \<Rightarrow> 'k \<Rightarrow> 'v \<Rightarrow> ('k \<times> 'v) list" where
  "dict_set [] k v = [(k, v)]"
| "dict_set ((k', v') # d) k v =
     (if k' = k then (k, v) # d else (k', v') # dict_set d k v)"

definition incr :: "bool \<Rightarrow> counts \<Rightarrow> string \<Rightarrow> py_exception + counts" where
  \<comment> \<open>\<open>d[k] += 1\<close>; the flag says whether \<open>d\<close> is a \<open>defaultdict(int)\<close>\<close>
  "incr is_defaultdict d k =
     (case map_of d k of
        Some n \<Rightarrow> Inr (dict_set d k (n + 1))
      | None \<Rightarrow> if is_defaultdict then Inr (dict_set d k 1) else Inl (KeyError k))"

fun incr_all :: "bool \<Rightarrow> counts \<Rightarrow> string list \<Rightarrow> py_exception + counts" where
  "incr_all dd d [] = Inr d"
| "incr_all dd d (k # ks) =
     (case incr dd d k of Inl e \<Rightarrow> Inl e | Inr d' \<Rightarrow> incr_all dd d' ks)"

definition counts_total :: "counts \<Rightarrow> int" where
  \<comment> \<open>\<open>sum(d.values())\<close>\<close>
  "counts_total d = sum_list (map snd d)"

section \<open>Analysis (AIAnalyzer)\<close>

record Analysis =
  summary :: string
  key_features :: "string list"
  impact :: string
  action :: string
  competitor_name :: string
  threat_level :: string
  opportunities :: "string list"
  strategic_implications :: "string option"
  confidence_score :: rat

definition any_in :: "string list \<Rightarrow> string \<Rightarrow> bool" where
  \<comment> \<open>\<open>any(kw in all_text for kw in keywords)\<close>\<close>
  "any_in keywords all_text = list_ex (contains all_text) keywords"

definition critical_keywords :: "string list" where
  "critical_keywords = [''acquisition'', ''acquired'', ''merger'', ''funding'', ''series'',
     ''million'', ''billion'', ''ipo'', ''partnership with'']"

definition high_keywords :: "string list" where
  "high_keywords = [''launch'', ''launched'', ''new product'', ''major update'',
     ''enterprise'', ''pricing change'', ''price'', ''discount'']"

definition medium_keywords :: "string list" where
  "medium_keywords = [''feature'', ''improvement'', ''update'', ''release'', ''beta'',
     ''preview'', ''integration'', ''api'']"

definition low_keywords :: "string list" where
  "low_keywords = [''bug fix'', ''patch'', ''maintenance'', ''minor'']"

definition basic_analysis :: "string \<Rightarrow> string \<Rightarrow> Update list \<Rightarrow> Analysis" where
  "basic_analysis name category updates =
     (if updates = [] then
        \<lparr> summary = name @ '' has no recent updates'',
          key_features = [],
          impact = ''Low'',
          action = ''Continue monitoring for future updates'',
          competitor_name = name,
          threat_level = ''Low'',
          opportunities = [],
          strategic_implications = None,
          confidence_score = 9 / 10 \<rparr>
      else
        let titles = map title (take 5 updates);
            contents = map content (take 5 updates);
            all_text = lower (join '' '' (titles @ contents));
            (imp, threat) =
              (if any_in critical_keywords all_text then (''Critical'', ''High'')
               else if any_in high_keywords all_text then (''High'', ''Medium'')
               else if any_in medium_keywords all_text then (''Medium'', ''Low'')
               else if any_in low_keywords all_text then (''Low'', ''Low'')
               else (''Medium'', ''Low''))
        in \<lparr> summary = (case titles of t # _ \<Rightarrow> name @ '' released: '' @ t
                                      | [] \<Rightarrow> name @ '' updated''),
             key_features = take 5 titles,
             impact = imp,
             action = ''Review '' @ name @ [CHR 0x27] @ ''s updates and assess competitive positioning'',
             competitor_name = name,
             threat_level = threat,
             opportunities = [''Monitor their approach and user reception'',
                              ''Identify gaps in our own offering'',
                              ''Consider if similar features would benefit our users''],
             strategic_implications =
               Some (name @ '' is actively evolving their '' @ category @ '' offering''),
             confidence_score = 6 / 10 \<rparr>)"

definition analyze_updates ::
    "bool \<Rightarrow> Analysis option \<Rightarrow> string \<Rightarrow> string \<Rightarrow> Update list \<Rightarrow> Analysis option" where
  \<comment> \<open>\<open>gemini_available\<close> is the module flag \<open>GEMINI_AVAILABLE\<close>; \<open>gemini_result\<close> is what
      \<open>_analyze_with_gemini\<close> returns for these arguments: an \<open>Analysis\<close> built from the
      remote model's answer, or \<open>None\<close> when the call or the parsing of the answer raised\<close>
  "analyze_updates gemini_available gemini_result name category updates =
     (if gemini_available \<and> updates \<noteq> [] then
        (case gemini_result of
           Some result \<Rightarrow> Some result
         | None \<Rightarrow> Some (basic_analysis name category updates))
      else Some (basic_analysis name category updates))"

section \<open>Trend analysis (TrendAnalyzer)\<close>

text \<open>
  The file \<open>trends.json\<close> holds a dict from competitor names to a dict with the keys
  \<open>history\<close>, \<open>impact_counts\<close> and \<open>feature_mentions\<close>; a history entry is a dict with
  the keys \<open>timestamp\<close>, \<open>impact\<close>, \<open>threat_level\<close>, \<open>summary\<close> and \<open>key_features\<close>.
  \<open>load_trends\<close> returns the content of the file (the empty dict when there is none),
  and \<open>save_trends\<close> replaces it, so the store passed around below is that content.
\<close>

record HistoryEntry =
  entry_timestamp :: string
  entry_impact :: string
  entry_threat_level :: string
  entry_summary :: string
  entry_key_features :: "string list"

record TrendData =
  history :: "HistoryEntry list"
  impact_counts :: counts
  feature_mentions :: counts

type_synonym trends = "string \<rightharpoonup> TrendData"

definition feature_terms :: "string \<Rightarrow> string list" where
  \<comment> \<open>\<open>set(word.lower() for word in feature.split() if len(word) > 4 and word.lower() not in
      ['feature', 'update', 'release'])\<close>, as a list without duplicates\<close>
  "feature_terms feature =
     remdups (map lower
       (filter (\<lambda>word. length word > 4 \<and> lower word \<notin> set [''feature'', ''update'', ''release''])
          (split_ws feature)))"

fun track_features :: "bool \<Rightarrow> counts \<Rightarrow> string list \<Rightarrow> py_exception + counts" where
  "track_features dd d [] = Inr d"
| "track_features dd d (feature # fs) =
     (case incr_all dd d (feature_terms feature) of
        Inl e \<Rightarrow> Inl e
      | Inr d' \<Rightarrow> track_features dd d' fs)"

definition record_finding ::
    "string \<Rightarrow> trends \<Rightarrow> string \<Rightarrow> Analysis \<Rightarrow> py_exception + trends" where
  \<comment> \<open>\<open>now\<close> is \<open>datetime.now().isoformat()\<close>.  A competitor that is not in the loaded
      store gets two fresh \<open>defaultdict(int)\<close>; the counters of a competitor that is in
      it are the plain dicts of \<open>json.load\<close>.  The store is written at the very end, so
      a call that raises leaves it as it was (\<open>Inl\<close>).\<close>
  "record_finding now trends name analysis =
     (let fresh = (trends name = None);
          data = (case trends name of
                    None \<Rightarrow> \<lparr> history = [], impact_counts = [], feature_mentions = [] \<rparr>
                  | Some d \<Rightarrow> d);
          entry = \<lparr> entry_timestamp = now,
                    entry_impact = impact analysis,
                    entry_threat_level = threat_level analysis,
                    entry_summary = summary analysis,
                    entry_key_features = key_features analysis \<rparr>;
          hist = history data @ [entry]
      in case incr fresh (impact_counts data) (impact analysis) of
           Inl e \<Rightarrow> Inl e
         | Inr ic \<Rightarrow>
             (case track_features fresh (feature_mentions data) (key_features analysis) of
                Inl e \<Rightarrow> Inl e
              | Inr fm \<Rightarrow>
                  Inr (trends(name \<mapsto>
                    \<lparr> history = (if length hist > 50 then py_slice hist (Some (- 50)) None else hist),
                      impact_counts = ic,
                      feature_mentions = fm \<rparr>))))"

record TrendStats =
  total_updates :: nat
  recent_activity :: nat
  activity_trend :: string
  average_impact :: rat
  impact_distribution :: counts
  top_features :: counts
  recent_focus :: counts
  first_seen :: "string option"
  last_seen :: "string option"

datatype trend_report = NoHistoricalData | Stats TrendStats

definition impact_score :: "string \<Rightarrow> int" where
  \<comment> \<open>\<open>impact_scores.get(entry['impact'], 2)\<close>\<close>
  "impact_score i =
     (if i = ''Critical'' then 4 else if i = ''High'' then 3
      else if i = ''Medium'' then 2 else if i = ''Low'' then 1 else 2)"

definition top5 :: "counts \<Rightarrow> counts" where
  \<comment> \<open>\<open>sorted(d.items(), key=lambda x: x[1], reverse=True)[:5]\<close>; the sort is stable\<close>
  "top5 d = take 5 (sort_key (\<lambda>kv. - snd kv) d)"

fun tally :: "counts \<Rightarrow> string list \<Rightarrow> counts" where
  \<comment> \<open>\<open>keyword_freq[kw] += 1\<close> on a \<open>defaultdict(int)\<close>, for the keywords that count\<close>
  "tally d [] = d"
| "tally d (kw # kws) =
     (if length kw > 4 \<and> kw \<notin> set [''feature'', ''update'', ''release'', ''support'']
      then tally (dict_set d kw (case map_of d kw of None \<Rightarrow> 1 | Some n \<Rightarrow> n + 1)) kws
      else tally d kws)"

definition get_competitor_trends :: "trends \<Rightarrow> string \<Rightarrow> trend_report" where
  \<comment> \<open>\<open>NoHistoricalData\<close> is the dict \<open>{'error': 'No historical data'}\<close>.  The average is
      the exact quotient, which Python rounds to a float.\<close>
  "get_competitor_trends trends name =
     (case trends name of
        None \<Rightarrow> NoHistoricalData
      | Some data \<Rightarrow>
          let hist = history data in
          if hist = [] then NoHistoricalData
          else
            let recent = py_slice hist (Some (- 10)) None;
                avg_impact = of_int (sum_list (map (\<lambda>e. impact_score (entry_impact e)) recent))
                               / of_nat (length recent);
                trend =
                  (if length hist \<ge> 20 then
                     let older = py_slice hist (Some (- 20)) (Some (- 10));
                         recent_act = length recent;
                         older_act = length older
                     in if recent_act > older_act then ''increasing''
                        else if recent_act = older_act then ''stable''
                        else ''decreasing''
                   else ''insufficient data'');
                recent_keywords =
                  concat (map (\<lambda>e. concat (map (\<lambda>f. split_ws (lower f)) (entry_key_features e)))
                            recent)
            in Stats \<lparr> total_updates = length hist,
                       recent_activity = length recent,
                       activity_trend = trend,
                       average_impact = avg_impact,
                       impact_distribution = impact_counts data,
                       top_features = top5 (feature_mentions data),
                       recent_focus = top5 (tally [] recent_keywords),
                       first_seen = (case hist of [] \<Rightarrow> None
                                     | e # _ \<Rightarrow> Some (entry_timestamp e)),
                       last_seen = (if hist = [] then None
                                    else Some (entry_timestamp (last hist))) \<rparr>)"


section \<open>HTML documents (BeautifulSoup)\<close>

text \<open>
  The tree that \<open>BeautifulSoup(text, 'html.parser')\<close> builds: a text node, or a tag with
  the identity of the object (what \<open>id()\<close> gives), its name, its attributes and its
  children.  The document itself is a tag named \<open>[document]\<close>.  The queries below are
  those of the library that the extractor calls.
\<close>

datatype node = Text string | Tag nat string "(string \<times> string) list" "node list"

text \<open>A node found by a search, with what the search remembers of its place.\<close>

record located =
  elem :: node
  next_siblings :: "node list"
  parent :: node

fun located_in :: "node \<Rightarrow> located list"
  and located_children :: "node \<Rightarrow> node list \<Rightarrow> located list" where
  \<comment> \<open>the descendants of a node in document order\<close>
  "located_in (Text s) = []"
| "located_in (Tag i n as cs) = located_children (Tag i n as cs) cs"
| "located_children p [] = []"
| "located_children p (c # cs) =
     \<lparr> elem = c, next_siblings = cs, parent = p \<rparr> # located_in c @ located_children p cs"

definition is_tag :: "node \<Rightarrow> bool" where
  "is_tag x = (case x of Text _ \<Rightarrow> False | Tag _ _ _ _ \<Rightarrow> True)"

definition named :: "string list \<Rightarrow> node \<Rightarrow> bool" where
  "named names x = (case x of Text _ \<Rightarrow> False | Tag _ n _ _ \<Rightarrow> n \<in> set names)"

definition node_id :: "node \<Rightarrow> nat" where
  "node_id x = (case x of Text _ \<Rightarrow> 0 | Tag i _ _ _ \<Rightarrow> i)"

definition attr :: "string \<Rightarrow> node \<Rightarrow> string option" where
  \<comment> \<open>\<open>tag.get(key)\<close>\<close>
  "attr key x = (case x of Text _ \<Rightarrow> None | Tag _ _ as _ \<Rightarrow> map_of as key)"

definition find_all_located :: "(node \<Rightarrow> bool) \<Rightarrow> nat option \<Rightarrow> node \<Rightarrow> located list" where
  \<comment> \<open>\<open>root.find_all(..., limit=k)\<close>: the matching tags below \<open>start\<close> in document order,
      the first \<open>k\<close> of them when a limit is given\<close>
  "find_all_located p limit start =
     (let found = filter (\<lambda>l. is_tag (elem l) \<and> p (elem l)) (located_in start)
      in case limit of None \<Rightarrow> found | Some k \<Rightarrow> take k found)"

definition find_all_tags :: "(node \<Rightarrow> bool) \<Rightarrow> nat option \<Rightarrow> node \<Rightarrow> node list" where
  "find_all_tags p limit start = map elem (find_all_located p limit start)"

definition find_tag :: "(node \<Rightarrow> bool) \<Rightarrow> node \<Rightarrow> node option" where
  \<comment> \<open>\<open>root.find(...)\<close>: the first match, or \<open>None\<close>\<close>
  "find_tag p start = (case find_all_tags p (Some 1) start of [] \<Rightarrow> None | x # _ \<Rightarrow> Some x)"

definition find_next_siblings :: "string list \<Rightarrow> nat \<Rightarrow> located \<Rightarrow> node list" where
  \<comment> \<open>\<open>tag.find_next_siblings(names, limit=k)\<close>\<close>
  "find_next_siblings names k l = take k (filter (named names) (next_siblings l))"

fun strings :: "node \<Rightarrow> string list" where
  "strings (Text s) = [s]"
| "strings (Tag i n as cs) = concat (map strings cs)"

definition get_text :: "string \<Rightarrow> node \<Rightarrow> string" where
  \<comment> \<open>\<open>tag.get_text(strip=True, separator=sep)\<close>: every string below the tag is stripped,
      the empty ones are dropped, and the rest is joined\<close>
  "get_text sep x = join sep (filter (\<lambda>t. t \<noteq> []) (map strip (strings x)))"

definition class_has :: "(string \<Rightarrow> bool) \<Rightarrow> node \<Rightarrow> bool" where
  \<comment> \<open>\<open>class_=lambda c: c and f(c)\<close>: the function is tried on every class of the tag and
      on the whole attribute value, and on \<open>None\<close> when the tag has no class\<close>
  "class_has f x =
     (case attr ''class'' x of
        None \<Rightarrow> False
      | Some v \<Rightarrow> let cs = split_ws v
                  in list_ex (\<lambda>c. c \<noteq> [] \<and> f c) (cs @ [join '' '' cs]))"

definition id_has :: "(string \<Rightarrow> bool) \<Rightarrow> node \<Rightarrow> bool" where
  \<comment> \<open>\<open>id=lambda i: i and f(i)\<close>\<close>
  "id_has f x = (case attr ''id'' x of None \<Rightarrow> False | Some v \<Rightarrow> v \<noteq> [] \<and> f v)"

definition datetime_or_text :: "node \<Rightarrow> string" where
  \<comment> \<open>\<open>elem.get('datetime') or elem.get_text(strip=True)\<close>\<close>
  "datetime_or_text x =
     (case attr ''datetime'' x of
        None \<Rightarrow> get_text [] x
      | Some v \<Rightarrow> if v \<noteq> [] then v else get_text [] x)"

section \<open>Content extraction (ContentExtractor)\<close>

definition first_part :: "string list \<Rightarrow> string" where
  \<comment> \<open>\<open>parts[0]\<close> of the result of \<open>str.split\<close> with a separator, which is never empty\<close>
  "first_part parts = (case parts of [] \<Rightarrow> [] | x # _ \<Rightarrow> x)"

definition long_texts :: "nat \<Rightarrow> node list \<Rightarrow> string list" where
  \<comment> \<open>the loops that collect \<open>get_text(strip=True)\<close> of the elements with more than
      \<open>n\<close> characters\<close>
  "long_texts n xs = filter (\<lambda>t. length t > n) (map (get_text []) xs)"

definition extract_from_container :: "string \<Rightarrow> node \<Rightarrow> string \<Rightarrow> Update option" where
  "extract_from_container now container page_url =
     (let title_opt =
            (case find_tag (named [''h1'', ''h2'', ''h3'', ''h4'', ''h5'', ''h6'', ''a'', ''strong'', ''b''])
                    container of
               None \<Rightarrow>
                 let text = get_text [] container
                 in if length text < 10 then None
                    else Some (take 250 (first_part (split_on CHR ''.'' text)))
             | Some title_elem \<Rightarrow> Some (get_text [] title_elem))
      in case title_opt of
           None \<Rightarrow> None
         | Some t \<Rightarrow>
             if t = [] \<or> length t < 5 then None
             else
               let dt =
                     (case find_tag (\<lambda>x. named [''time'', ''span''] x
                                      \<and> class_has (\<lambda>c. contains (lower c) ''date'') x) container of
                        Some date_elem \<Rightarrow> Some (get_text [] date_elem)
                      | None \<Rightarrow>
                          (case find_tag (named [''time'']) container of
                             Some date_elem \<Rightarrow> Some (datetime_or_text date_elem)
                           | None \<Rightarrow> None));
                   content_parts =
                     long_texts 15 (find_all_tags (named [''p'', ''li'', ''div'', ''span'']) (Some 10) container);
                   c = take 1200 (join '' '' content_parts);
                   c' = (if c = [] \<or> length c < 20 then t else c)
               in Some (mk_update now (take 250 t) c' ''website'' page_url dt))"

definition extract_from_heading :: "string \<Rightarrow> located \<Rightarrow> string \<Rightarrow> Update option" where
  "extract_from_heading now heading page_url =
     (let t = get_text [] (elem heading)
      in if t = [] \<or> length t < 5 then None
         else
           let dt = (case find_tag (named [''time'']) (parent heading) of
                       Some time_elem \<Rightarrow> Some (datetime_or_text time_elem)
                     | None \<Rightarrow> None);
               content_parts =
                 long_texts 15 (find_next_siblings [''p'', ''ul'', ''div'', ''span''] 6 heading);
               c = take 1200 (join '' '' content_parts)
           in if c = [] \<and> length t < 20 then None
              else Some (mk_update now (take 250 t) (if c \<noteq> [] then c else t) ''website'' page_url dt))"

definition extract_from_list_item :: "string \<Rightarrow> node \<Rightarrow> string \<Rightarrow> Update option" where
  "extract_from_list_item now li page_url =
     (let text = get_text [] li
      in if text = [] \<or> length text < 10 then None
         else
           let (t, c) =
                 (case find_tag (named [''strong'', ''b'', ''h1'', ''h2'', ''h3'', ''h4'', ''h5'', ''h6'', ''a''])
                         li of
                    Some heading \<Rightarrow>
                      let t = get_text [] heading;
                          c = strip (remove_all t text)
                      in (t, if c = [] then t else c)
                  | None \<Rightarrow>
                      let sentences = split_on CHR ''.'' text
                      in if sentences \<noteq> [] \<and> length (first_part sentences) > 10
                         then (take 250 (first_part sentences), text)
                         else (take 100 text, text))
           in Some (mk_update now (take 250 t) (take 1200 c) ''website'' page_url None))"

definition add_unique :: "Update list \<Rightarrow> Update option \<Rightarrow> Update list" where
  \<comment> \<open>\<open>if update and not any(u.title == update.title for u in updates):
      updates.append(update)\<close>\<close>
  "add_unique updates update =
     (case update of
        None \<Rightarrow> updates
      | Some u \<Rightarrow> if list_ex (\<lambda>v. title v = title u) updates then updates else updates @ [u])"

definition collect :: "('a \<Rightarrow> Update option) \<Rightarrow> 'a list \<Rightarrow> Update list \<Rightarrow> Update list" where
  \<comment> \<open>a \<open>for\<close> loop that extracts from each element in turn and appends what is new\<close>
  "collect f xs updates = fold (\<lambda>x acc. add_unique acc (f x)) xs updates"


definition has_any :: "string list \<Rightarrow> string \<Rightarrow> bool" where
  \<comment> \<open>\<open>any(x in str(v).lower() for x in words)\<close>\<close>
  "has_any words v = list_ex (contains (lower v)) words"

definition main_content :: "node \<Rightarrow> node" where
  "main_content soup =
     (case find_tag (named [''main'']) soup of
        Some m \<Rightarrow> m
      | None \<Rightarrow>
     (case find_tag (named [''article'']) soup of
        Some m \<Rightarrow> m
      | None \<Rightarrow>
     (case find_tag (id_has (has_any [''content'', ''main'', ''body''])) soup of
        Some m \<Rightarrow> m
      | None \<Rightarrow>
     (case find_tag (class_has (has_any [''content'', ''main'', ''body''])) soup of
        Some m \<Rightarrow> m
      | None \<Rightarrow> soup))))"

definition container_patterns :: "string list" where
  "container_patterns =
     [''post'', ''update'', ''release'', ''item'', ''entry'', ''card'',
      ''news'', ''article'', ''changelog'', ''change'', ''feature'',
      ''announcement'', ''blog'', ''story'', ''note'']"

fun class_containers :: "node \<Rightarrow> string list \<Rightarrow> node list \<Rightarrow> node list" where
  \<comment> \<open>the first loop over the patterns, left by \<open>break\<close> at 15 containers\<close>
  "class_containers mc [] containers = containers"
| "class_containers mc (pattern # ps) containers =
     (let containers' = containers @
            find_all_tags (\<lambda>x. named [''article'', ''section'', ''div'', ''li''] x
                               \<and> class_has (\<lambda>c. contains (lower c) pattern) x) (Some 20) mc
      in if length containers' \<ge> 15 then containers'
         else class_containers mc ps containers')"

definition id_containers :: "node \<Rightarrow> node list \<Rightarrow> node list" where
  "id_containers mc containers =
     fold (\<lambda>pattern acc. acc @
             find_all_tags (\<lambda>x. named [''article'', ''section'', ''div''] x
                                \<and> id_has (\<lambda>i. contains (lower i) pattern) x) (Some 10) mc)
       container_patterns containers"

fun unique_containers :: "nat list \<Rightarrow> node list \<Rightarrow> node list" where
  \<comment> \<open>the first occurrence of every object, by \<open>id(c)\<close>\<close>
  "unique_containers seen [] = []"
| "unique_containers seen (c # cs) =
     (if node_id c \<in> set seen then unique_containers seen cs
      else c # unique_containers (node_id c # seen) cs)"

definition extract_structured_content :: "string \<Rightarrow> node \<Rightarrow> string \<Rightarrow> Update list" where
  "extract_structured_content now soup page_url =
     (let mc = main_content soup;
          containers = id_containers mc (class_containers mc container_patterns []);
          updates1 = collect (\<lambda>c. extract_from_container now c page_url)
                       (take 20 (unique_containers [] containers)) [];
          updates2 =
            (if length updates1 < 3 then
               collect (\<lambda>h. extract_from_heading now h page_url)
                 (find_all_located (named [''h1'', ''h2'', ''h3'', ''h4'']) (Some 25) mc) updates1
             else updates1);
          updates3 =
            (if length updates2 < 2 then
               collect (\<lambda>li. extract_from_list_item now li page_url)
                 (concat (map (find_all_tags (named [''li'']) (Some 15))
                    (find_all_tags (named [''ul'', ''ol'']) (Some 10) mc))) updates2
             else updates2)
      in take 20 updates3)"

definition aggressive_heading :: "string \<Rightarrow> string \<Rightarrow> located \<Rightarrow> Update option" where
  "aggressive_heading now page_url heading =
     (let text = get_text [] (elem heading)
      in if length text \<ge> 10 \<and> length text \<le> 300 then
           let content_parts =
                 long_texts 15 (find_next_siblings [''p'', ''div'', ''span''] 3 heading);
               c = (if content_parts \<noteq> [] then take 800 (join '' '' content_parts) else text)
           in Some (mk_update now (take 250 text) c ''website'' page_url None)
         else None)"

definition aggressive_paragraph :: "string \<Rightarrow> string \<Rightarrow> node \<Rightarrow> Update option" where
  "aggressive_paragraph now page_url p =
     (case find_tag (named [''strong'', ''b'', ''em'']) p of
        None \<Rightarrow> None
      | Some strong \<Rightarrow>
          let t = get_text [] strong
          in if length t \<ge> 10 \<and> length t \<le> 200 then
               let full_text = get_text [] p;
                   c = strip (remove_all t full_text)
               in Some (mk_update now (take 250 t) (take 800 (if c \<noteq> [] then c else t))
                          ''website'' page_url None)
             else None)"

definition aggressive_div :: "string \<Rightarrow> string \<Rightarrow> node \<Rightarrow> Update option" where
  "aggressive_div now page_url d =
     (let text = get_text '' '' d
      in if 20 \<le> length text \<and> length text \<le> 500
            \<and> find_all_tags (named [''div'', ''section'']) None d = [] then
           let title_words = take 15 (split_ws text);
               t = join '' '' title_words
           in Some (mk_update now (take 250 t) (take 800 text) ''website'' page_url None)
         else None)"

definition aggressive_extraction :: "string \<Rightarrow> node \<Rightarrow> string \<Rightarrow> Update list" where
  "aggressive_extraction now soup page_url =
     (let updates1 = collect (aggressive_heading now page_url)
                       (find_all_located (named [''h1'', ''h2'', ''h3'', ''h4'', ''h5'']) (Some 30) soup) [];
          updates2 =
            (if length updates1 < 3 then
               collect (aggressive_paragraph now page_url)
                 (find_all_tags (named [''p'']) (Some 30) soup) updates1
             else updates1);
          updates3 =
            (if length updates2 < 2 then
               collect (aggressive_div now page_url)
                 (find_all_tags (named [''div'']) (Some 50) soup) updates2
             else updates2)
      in take 15 updates3)"

fun prune :: "(node \<Rightarrow> bool) \<Rightarrow> node \<Rightarrow> node" where
  \<comment> \<open>\<open>decompose()\<close> on every tag below the node that matches\<close>
  "prune p (Text s) = Text s"
| "prune p (Tag i n as cs) =
     Tag i n as (map (prune p) (filter (\<lambda>c. \<not> (is_tag c \<and> p c)) cs))"

definition noise_patterns :: "string list" where
  "noise_patterns =
     [''cookie'', ''consent'', ''popup'', ''modal'', ''banner'',
      ''newsletter'', ''subscribe'', ''chat'', ''widget'', ''ad'',
      ''advertisement'', ''tracking'', ''analytics'', ''social-share'']"

definition has_role :: "node \<Rightarrow> bool" where
  "has_role x = (attr ''role'' x \<noteq> None)"

definition noise_role :: "node \<Rightarrow> bool" where
  "noise_role x =
     (case attr ''role'' x of
        None \<Rightarrow> False
      | Some r \<Rightarrow> r \<in> set [''navigation'', ''banner'', ''complementary'', ''contentinfo''])"

definition clean_soup :: "node \<Rightarrow> py_exception + node" where
  \<comment> \<open>The last loop reads \<open>tag.get('role')\<close> of every tag that had a \<open>role\<close> when the loop
      began.  \<open>decompose()\<close> empties the tags below the one it removes, and \<open>get\<close> on an
      emptied tag raises \<open>AttributeError\<close>: that is the case of a tag with a \<open>role\<close> below
      a tag that the loop removes.\<close>
  "clean_soup soup =
     (let s1 = prune (named [''script'', ''style'', ''nav'', ''footer'', ''header'',
                             ''iframe'', ''noscript'', ''svg'', ''button'', ''input'', ''select''])
                 soup;
          s2 = fold (\<lambda>pattern s.
                       prune (id_has (\<lambda>i. contains (lower i) pattern))
                         (prune (class_has (\<lambda>c. contains (lower c) pattern)) s))
                 noise_patterns s1
      in if list_ex (\<lambda>x. noise_role x \<and> find_all_tags has_role (Some 1) x \<noteq> [])
              (find_all_tags has_role None s2)
         then Inl (AttributeError ''get'')
         else Inr (prune noise_role s2))"

record http_response =
  status_code :: nat
  document :: node

definition website_body ::
    "string \<Rightarrow> string \<Rightarrow> py_exception + http_response \<Rightarrow> py_exception + Update list" where
  \<comment> \<open>the body of the \<open>try\<close> of \<open>extract_from_website\<close>; \<open>fetched\<close> is what
      \<open>requests.get\<close> returns or raises for the URL, \<open>document\<close> the tree that
      \<open>BeautifulSoup\<close> builds from the text of the response (\<open>html.parser\<close> builds a
      tree from any text and does not raise on malformed markup)\<close>
  "website_body now page_url fetched =
     (case fetched of
        Inl e \<Rightarrow> Inl e
      | Inr response \<Rightarrow>
          if 400 \<le> status_code response \<and> status_code response < 600
          then Inl (RequestException ''HTTPError'')
          else
            (case clean_soup (document response) of
               Inl e \<Rightarrow> Inl e
             | Inr soup \<Rightarrow>
                 let updates = extract_structured_content now soup page_url
                 in Inr (if updates = [] then aggressive_extraction now soup page_url
                         else updates)))"

definition extract_from_website ::
    "string \<Rightarrow> string \<Rightarrow> py_exception + http_response \<Rightarrow> Update list" where
  "extract_from_website now page_url fetched =
     (case website_body now page_url fetched of
        Inl Timeout \<Rightarrow> []
      | Inl (RequestException m) \<Rightarrow> []
      | Inl e \<Rightarrow> []
      | Inr updates \<Rightarrow> updates)"

text \<open>
  What \<open>feedparser.parse(url)\<close> gives: the entries it could read, and the flag \<open>bozo\<close>
  that it sets when the feed is not well-formed (the parser does not raise on such a
  feed, and \<open>extract_from_rss\<close> does not read the flag).  An entry has the keys that
  \<open>extract_from_rss\<close> reads.  \<open>feed\<close> below is that result, or the exception raised on
  the way, and \<open>html_text s\<close> is \<open>BeautifulSoup(s, 'html.parser').get_text(strip=True)\<close>.
\<close>

record feed_entry =
  feed_title :: "string option"
  feed_summary :: "string option"
  feed_description :: "string option"
  feed_link :: "string option"
  feed_published :: "string option"

record parsed_feed =
  bozo :: bool
  entries :: "feed_entry list"

definition rss_entry ::
    "(string \<Rightarrow> py_exception + string) \<Rightarrow> string \<Rightarrow> string \<Rightarrow> feed_entry
       \<Rightarrow> py_exception + Update" where
  "rss_entry html_text now feed_url e =
     (let t = (case feed_title e of None \<Rightarrow> ''Untitled'' | Some x \<Rightarrow> x);
          raw = (case feed_summary e of
                   Some x \<Rightarrow> x
                 | None \<Rightarrow> (case feed_description e of None \<Rightarrow> [] | Some d \<Rightarrow> d))
      in case (if raw \<noteq> [] then html_text raw else Inr raw) of
           Inl ex \<Rightarrow> Inl ex
         | Inr sm \<Rightarrow>
             Inr (mk_update now t (if sm \<noteq> [] then take 800 sm else t) ''rss''
                    (case feed_link e of None \<Rightarrow> feed_url | Some l \<Rightarrow> l)
                    (feed_published e)))"

fun rss_entries ::
    "(string \<Rightarrow> py_exception + string) \<Rightarrow> string \<Rightarrow> string \<Rightarrow> feed_entry list
       \<Rightarrow> py_exception + Update list" where
  "rss_entries html_text now feed_url [] = Inr []"
| "rss_entries html_text now feed_url (e # es) =
     (case rss_entry html_text now feed_url e of
        Inl ex \<Rightarrow> Inl ex
      | Inr u \<Rightarrow>
          (case rss_entries html_text now feed_url es of
             Inl ex \<Rightarrow> Inl ex
           | Inr us \<Rightarrow> Inr (u # us)))"

definition rss_body ::
    "(string \<Rightarrow> py_exception + string) \<Rightarrow> string \<Rightarrow> string \<Rightarrow> py_exception + parsed_feed
       \<Rightarrow> py_exception + Update list" where
  "rss_body html_text now feed_url feed =
     (case feed of
        Inl e \<Rightarrow> Inl e
      | Inr parsed \<Rightarrow>
          if entries parsed = [] then Inr []
          else rss_entries html_text now feed_url (take 10 (entries parsed)))"

definition extract_from_rss ::
    "(string \<Rightarrow> py_exception + string) \<Rightarrow> string \<Rightarrow> string \<Rightarrow> py_exception + parsed_feed
       \<Rightarrow> Update list" where
  "extract_from_rss html_text now feed_url feed =
     (case rss_body html_text now feed_url feed of
        Inl e \<Rightarrow> []
      | Inr updates \<Rightarrow> updates)"


section \<open>Monitoring (MonitoringEngine)\<close>

record CompetitorConfig =
  name :: string
  website_url :: "string option"
  rss_feed_url :: "string option"
  twitter_handle :: "string option"
  linkedin_url :: "string option"
  press_release_url :: "string option"
  category :: string
  priority :: string
  enabled :: bool
  tags :: "string list"
  added_at :: string
  last_checked :: "string option"

record MonitoringConfig =
  max_updates_per_competitor :: int
  rate_limit_seconds :: int

text \<open>
  What one call of \<open>monitor_competitor\<close> gets from outside the process: the clock, the
  lists that \<open>ContentExtractor.extract_from_rss\<close> and \<open>extract_from_website\<close> return
  for the competitor's URLs and \<open>_search_for_updates\<close> for the competitor (all three
  catch every exception and return a list, so the \<open>except\<close> branches around their
  calls are never taken), and the answer of \<open>_analyze_with_gemini\<close>.
\<close>

record check_env =
  env_now :: string
  rss_updates :: "Update list"
  web_updates :: "Update list"
  search_updates :: "Update list"
  gemini_result :: "Analysis option"

datatype event = Checked string | Slept int

text \<open>
  The state of the process: the engine's cache (and cache file), the trends file, the
  competitors file, and the order in which competitors were checked and
  \<open>time.sleep\<close> was called.
\<close>

record world =
  cache :: cache
  trends :: trends
  competitors :: "CompetitorConfig list"
  trace :: "event list"

record Finding =
  found_competitor :: CompetitorConfig
  found_updates :: "Update list"
  found_analysis :: Analysis

text \<open>
  \<open>monitor_competitor\<close> returns \<open>None\<close> on four paths, told apart here: the competitor is
  disabled, no source gave an update, every update was seen before, the analysis
  failed.
\<close>

datatype outcome = Skipped | NoUpdates | AllSeen | AnalysisFailed | Found Finding

definition result_of :: "outcome \<Rightarrow> Finding option" where
  "result_of out = (case out of Found f \<Rightarrow> Some f | _ \<Rightarrow> None)"

definition truthy :: "string option \<Rightarrow> bool" where
  \<comment> \<open>\<open>if competitor.rss_feed_url:\<close> on an \<open>Optional[str]\<close>\<close>
  "truthy s = (case s of None \<Rightarrow> False | Some u \<Rightarrow> u \<noteq> [])"

fun update_competitor_config :: "CompetitorConfig list \<Rightarrow> CompetitorConfig \<Rightarrow> CompetitorConfig list" where
  \<comment> \<open>the first competitor of the file with this name is replaced\<close>
  "update_competitor_config [] c = []"
| "update_competitor_config (k # ks) c =
     (if name k = name c then c # ks else k # update_competitor_config ks c)"

definition gather_updates :: "check_env \<Rightarrow> CompetitorConfig \<Rightarrow> Update list" where
  \<comment> \<open>the first part of \<open>monitor_competitor\<close>: feed, then page, then search\<close>
  "gather_updates env c =
     (let updates = (if truthy (rss_feed_url c) then rss_updates env else [])
      in if (updates = [] \<or> length updates < 3) \<and> truthy (website_url c) then
           (if web_updates env \<noteq> [] then
              updates @ filter (\<lambda>u. title u \<notin> set (map title updates)) (web_updates env)
            else updates @ search_updates env)
         else updates)"

definition monitor_competitor ::
    "bool \<Rightarrow> MonitoringConfig \<Rightarrow> check_env \<Rightarrow> world \<Rightarrow> CompetitorConfig
       \<Rightarrow> (py_exception + outcome) \<times> world" where
  \<comment> \<open>\<open>Inl e\<close>: the call raised \<open>e\<close>.  \<open>send_alert\<close> catches what it raises and its
      result is not used, so it does not show here; writing the cache, trends and
      competitors files is taken to succeed.\<close>
  "monitor_competitor gemini_available config env w c =
     (if \<not> enabled c then (Inr Skipped, w)
      else
        let updates = gather_updates env c in
        if updates = [] then (Inr NoUpdates, w)
        else
          let new_updates = filter_new_updates (cache w) (name c) updates;
              c' = c\<lparr> last_checked := Some (env_now env) \<rparr>
          in if new_updates = [] then
               (Inr AllSeen, w\<lparr> competitors := update_competitor_config (competitors w) c' \<rparr>)
             else
               (case analyze_updates gemini_available (gemini_result env) (name c) (category c)
                       new_updates of
                  None \<Rightarrow> (Inr AnalysisFailed, w)
                | Some analysis \<Rightarrow>
                    (case record_finding (env_now env) (trends w) (name c) analysis of
                       Inl e \<Rightarrow> (Inl e, w)
                     | Inr trends' \<Rightarrow>
                         (Inr (Found \<lparr> found_competitor = c',
                                       found_updates =
                                         py_slice new_updates None
                                           (Some (max_updates_per_competitor config)),
                                       found_analysis = analysis \<rparr>),
                          w\<lparr> trends := trends',
                             cache := update_cache (cache w) (name c) updates,
                             competitors := update_competitor_config (competitors w) c' \<rparr>))))"

fun monitor_loop ::
    "bool \<Rightarrow> MonitoringConfig \<Rightarrow> (nat \<Rightarrow> check_env) \<Rightarrow> nat \<Rightarrow> nat \<Rightarrow> CompetitorConfig list
       \<Rightarrow> world \<times> Finding list \<Rightarrow> world \<times> Finding list" where
  \<comment> \<open>the \<open>for\<close> loop of \<open>monitor_all\<close> from position \<open>i\<close> (counted from 1) of \<open>n\<close>;
      \<open>envs i\<close> is what the \<open>i\<close>-th check gets from outside\<close>
  "monitor_loop ga config envs n i [] (w, findings) = (w, findings)"
| "monitor_loop ga config envs n i (c # cs) (w, findings) =
     (case monitor_competitor ga config (envs i) (w\<lparr> trace := trace w @ [Checked (name c)] \<rparr>) c of
        (Inl e, w') \<Rightarrow> monitor_loop ga config envs n (i + 1) cs (w', findings)
      | (Inr out, w') \<Rightarrow>
          monitor_loop ga config envs n (i + 1) cs
            (if i < n then w'\<lparr> trace := trace w' @ [Slept (rate_limit_seconds config)] \<rparr> else w',
             case result_of out of None \<Rightarrow> findings | Some f \<Rightarrow> findings @ [f]))"

definition monitor_all ::
    "bool \<Rightarrow> MonitoringConfig \<Rightarrow> (nat \<Rightarrow> check_env) \<Rightarrow> world \<Rightarrow> world \<times> Finding list" where
  "monitor_all ga config envs w =
     (let enabled_competitors = filter enabled (competitors w)
      in monitor_loop ga config envs (length enabled_competitors) 1 enabled_competitors (w, []))"


section \<open>Runs of checks and the cache invariant\<close>

definition cache_bounded :: "cache \<Rightarrow> bool" where
  "cache_bounded c = (\<forall>k hs. c k = Some hs \<longrightarrow> length hs \<le> 100)"

fun run_cycles ::
    "bool \<Rightarrow> MonitoringConfig \<Rightarrow> (check_env \<times> CompetitorConfig) list \<Rightarrow> world \<Rightarrow> world" where
  \<comment> \<open>any number of calls of \<open>monitor_competitor\<close>, one after the other, on one state\<close>
  "run_cycles ga config [] w = w"
| "run_cycles ga config ((env, c) # xs) w =
     run_cycles ga config xs (snd (monitor_competitor ga config env w c))"

definition is_finding :: "py_exception + outcome \<Rightarrow> bool" where
  \<comment> \<open>the call returned a finding (not \<open>None\<close>, and it did not raise)\<close>
  "is_finding r = (case r of Inr (Found f) \<Rightarrow> True | _ \<Rightarrow> False)"

section \<open>Reading the trace\<close>

fun checked_names :: "event list \<Rightarrow> string list" where
  \<comment> \<open>the competitors checked, in order\<close>
  "checked_names [] = []"
| "checked_names (Checked n # es) = n # checked_names es"
| "checked_names (Slept d # es) = checked_names es"

definition is_check :: "event \<Rightarrow> bool" where
  "is_check e = (case e of Checked _ \<Rightarrow> True | Slept _ \<Rightarrow> False)"

section \<open>Concrete inputs\<close>

definition upd_a :: Update where
  "upd_a = mk_update ''2025-01-01T00:00:00'' ''Version 1.0 released'' ''First release''
             ''rss'' ''https://acme.example/feed'' None"

definition upd_b :: Update where
  "upd_b = mk_update ''2025-01-01T00:00:00'' ''Version 2.0 released'' ''Added dark mode''
             ''rss'' ''https://acme.example/feed'' None"

definition acme :: CompetitorConfig where
  "acme = \<lparr> name = ''Acme'', website_url = None,
            rss_feed_url = Some ''https://acme.example/feed'', twitter_handle = None,
            linkedin_url = None, press_release_url = None, category = ''Productivity'',
            priority = ''High'', enabled = True, tags = [],
            added_at = ''2025-01-01T00:00:00'', last_checked = None \<rparr>"

definition config0 :: MonitoringConfig where
  \<comment> \<open>the defaults of the dataclass\<close>
  "config0 = \<lparr> max_updates_per_competitor = 5, rate_limit_seconds = 2 \<rparr>"

definition env_a :: check_env where
  "env_a = \<lparr> env_now = ''2025-01-02T00:00:00'', rss_updates = [upd_a, upd_b],
             web_updates = [], search_updates = [], gemini_result = None \<rparr>"

definition world0 :: world where
  "world0 = \<lparr> cache = Map.empty, trends = Map.empty, competitors = [acme], trace = [] \<rparr>"


definition upd_launch :: Update where
  "upd_launch = mk_update ''2025-01-03T08:00:00'' ''Acme launches Boards'' ''Boards is here''
                  ''rss'' ''https://acme.example/feed'' None"

definition upd_patch :: Update where
  "upd_patch = mk_update ''2025-01-02T08:00:00'' ''Minor patch'' ''Minor patch''
                 ''rss'' ''https://acme.example/feed'' None"

definition bolt :: CompetitorConfig where
  "bolt = acme\<lparr> name := ''Bolt'', rss_feed_url := Some ''https://bolt.example/feed'' \<rparr>"

definition world_ab :: world where
  "world_ab = \<lparr> cache = Map.empty, trends = Map.empty, competitors = [acme, bolt], trace = [] \<rparr>"

definition feed_env :: "string \<Rightarrow> Update list \<Rightarrow> check_env" where
  "feed_env now us =
     \<lparr> env_now = now, rss_updates = us, web_updates = [], search_updates = [],
       gemini_result = None \<rparr>"

definition envs_day1 :: "nat \<Rightarrow> check_env" where
  \<comment> \<open>first batch: the feed of Acme has a patch note, the feed of Bolt is empty\<close>
  "envs_day1 i = (if i = 1 then feed_env ''2025-01-02T09:00:00'' [upd_patch]
                  else feed_env ''2025-01-02T09:00:05'' [])"

definition envs_day2 :: "nat \<Rightarrow> check_env" where
  \<comment> \<open>second batch: the feed of Acme has a launch on top, the feed of Bolt an entry\<close>
  "envs_day2 i = (if i = 1 then feed_env ''2025-01-03T09:00:00'' [upd_launch, upd_patch]
                  else feed_env ''2025-01-03T09:00:05'' [upd_b])"

definition env_only_a :: check_env where
  \<comment> \<open>a later look at the feed of \<open>env_a\<close>, from which the second entry is gone\<close>
  "env_only_a = \<lparr> env_now = ''2025-01-03T00:00:00'', rss_updates = [upd_a],
                  web_updates = [], search_updates = [], gemini_result = None \<rparr>"

definition world_after_a :: world where
  \<comment> \<open>the state after the first check of Acme with \<open>env_a\<close>\<close>
  "world_after_a = snd (monitor_competitor False config0 env_a world0 acme)"

definition world_day1 :: world where
  \<comment> \<open>the state after the first batch\<close>
  "world_day1 = fst (monitor_all False config0 envs_day1 world_ab)"

definition entry_v2 :: feed_entry where
  "entry_v2 = \<lparr> feed_title = Some ''v2.0 released'', feed_summary = Some ''Added dark mode'',
                feed_description = None, feed_link = None, feed_published = None \<rparr>"

definition entry_v1 :: feed_entry where
  "entry_v1 = \<lparr> feed_title = Some ''v1.0 released'', feed_summary = Some ''First release'',
                feed_description = None, feed_link = None, feed_published = None \<rparr>"

definition truncated_feed :: parsed_feed where
  \<comment> \<open>a feed cut off after its second entry: the parser flags it and keeps the two
      entries it read\<close>
  "truncated_feed = \<lparr> bozo = True, entries = [entry_v1, entry_v2] \<rparr>"

definition empty_data :: TrendData where
  "empty_data = \<lparr> history = [], impact_counts = [], feature_mentions = [] \<rparr>"

definition high_entry :: HistoryEntry where
  "high_entry = \<lparr> entry_timestamp = ''2025-01-02T09:00:00'', entry_impact = ''High'',
                   entry_threat_level = ''Medium'', entry_summary = ''Acme released: Boards'',
                   entry_key_features = [''Boards''] \<rparr>"

definition data_of :: "nat \<Rightarrow> TrendData" where
  \<comment> \<open>the trend data of a competitor after \<open>k\<close> findings of high impact\<close>
  "data_of k = \<lparr> history = replicate k high_entry, impact_counts = [(''High'', int k)],
                  feature_mentions = [(''boards'', int k)] \<rparr>"


definition item_with_icon_link :: node where
  \<comment> \<open>\<open><li><a href="/releases/2"><img src="/icon.png"></a> Version 2.0 released today</li>\<close>\<close>
  "item_with_icon_link =
     Tag 4 ''li'' []
       [Tag 5 ''a'' [(''href'', ''/releases/2'')] [Tag 6 ''img'' [(''src'', ''/icon.png'')] []],
        Text '' Version 2.0 released today'']"

definition releases_page :: node where
  "releases_page =
     Tag 0 ''[document]'' []
       [Tag 1 ''html'' []
          [Tag 2 ''body'' [] [Tag 3 ''ul'' [] [item_with_icon_link]]]]"

definition nested_roles_page :: node where
  \<comment> \<open>a navigation block with a menu inside, both with a \<open>role\<close>\<close>
  "nested_roles_page =
     Tag 0 ''[document]'' []
       [Tag 1 ''html'' []
          [Tag 2 ''body'' []
             [Tag 3 ''div'' [(''role'', ''navigation'')]
                [Tag 4 ''ul'' [(''role'', ''menu'')] [Tag 5 ''li'' [] [Text ''Home'']]],
              Tag 6 ''h2'' [] [Text ''Version 2.0 released today'']]]]"


section \<open>Fingerprints\<close>

lemma md5_abc: "md5_hexdigest (encode ''abc'') = ''900150983cd24fb0d6963f7d28e17f72''"
  by code_simp

lemma md5_empty: "md5_hexdigest (encode '''') = ''d41d8cd98f00b204e9800998ecf8427e''"
  by code_simp

lemma md5_two_blocks:
  "md5_hexdigest (encode (replicate 64 CHR ''a'')) = ''014842d480b571495a4a0363793f7367''"
  by code_simp

lemma md5_two_byte_character:
  "md5_hexdigest (encode [char_of (233 :: nat)]) = ''66ddcd97cfdeabb2f6fb8a999b4bc76f''"
  by code_simp

text \<open>
  C1 (as stated, refuted).  The claim has the fingerprints of two updates equal if and
  only if their titles are equal and the first 100 characters of their contents are
  equal.  The digest is taken of the concatenation, so the title \<open>ab\<close> with content \<open>c\<close>
  and the title \<open>a\<close> with content \<open>bc\<close> have the same fingerprint and different titles.
\<close>

theorem fingerprint_iff_counterexample:
  "\<not> (fingerprint (mk_update ''t0'' ''ab'' ''c'' ''website'' ''u'' None)
        = fingerprint (mk_update ''t0'' ''a'' ''bc'' ''website'' ''u'' None)
      \<longleftrightarrow>
        title (mk_update ''t0'' ''ab'' ''c'' ''website'' ''u'' None)
          = title (mk_update ''t0'' ''a'' ''bc'' ''website'' ''u'' None)
        \<and> take 100 (content (mk_update ''t0'' ''ab'' ''c'' ''website'' ''u'' None))
          = take 100 (content (mk_update ''t0'' ''a'' ''bc'' ''website'' ''u'' None)))"
  by (simp add: fingerprint_def mk_update_def)

text \<open>
  C1 (amended).  The fingerprint is the MD5 digest of the title followed by the first
  100 characters of the content, a pure function of that text: two updates with equal
  titles and equal 100-character content prefixes have equal fingerprints, and so do
  any two updates for which the concatenated text is the same.
\<close>

theorem fingerprint_deterministic:
  "(title u1 = title u2 \<and> take 100 (content u1) = take 100 (content u2)
        \<longrightarrow> fingerprint u1 = fingerprint u2)
   \<and> (title u1 @ take 100 (content u1) = title u2 @ take 100 (content u2)
        \<longrightarrow> fingerprint u1 = fingerprint u2)"
  by (simp add: fingerprint_def)

theorem fingerprint_deterministic_witness:
  "title (mk_update ''t1'' ''v2.0 released'' (replicate 100 CHR ''a'' @ ''x'') ''rss'' ''u'' None)
     = title (mk_update ''t2'' ''v2.0 released'' (replicate 100 CHR ''a'' @ ''y'') ''website'' ''w'' None)
   \<and> take 100 (content (mk_update ''t1'' ''v2.0 released'' (replicate 100 CHR ''a'' @ ''x'') ''rss'' ''u'' None))
     = take 100 (content (mk_update ''t2'' ''v2.0 released'' (replicate 100 CHR ''a'' @ ''y'') ''website'' ''w'' None))
   \<and> fingerprint (mk_update ''t1'' ''v2.0 released'' (replicate 100 CHR ''a'' @ ''x'') ''rss'' ''u'' None)
     = fingerprint (mk_update ''t2'' ''v2.0 released'' (replicate 100 CHR ''a'' @ ''y'') ''website'' ''w'' None)"
proof -
  let ?u1 = "mk_update ''t1'' ''v2.0 released'' (replicate 100 CHR ''a'' @ ''x'') ''rss'' ''u'' None"
  let ?u2 = "mk_update ''t2'' ''v2.0 released'' (replicate 100 CHR ''a'' @ ''y'') ''website'' ''w'' None"
  have h: "title ?u1 = title ?u2 \<and> take 100 (content ?u1) = take 100 (content ?u2)"
    by (simp add: mk_update_def)
  from fingerprint_deterministic [of ?u1 ?u2] h show ?thesis
    by blast
qed

section \<open>The fingerprint cache\<close>

lemma update_cache_get:
  "cache_get (update_cache c n us) (cache_key n) = map fingerprint (take 100 us)"
  by (simp add: update_cache_def cache_get_def take_map)

lemma update_cache_bounded:
  "cache_bounded c \<Longrightarrow> cache_bounded (update_cache c n us)"
  by (simp add: cache_bounded_def update_cache_def)

lemma monitor_competitor_cache_cases:
  "cache (snd (monitor_competitor ga config env w c)) = cache w
   \<or> cache (snd (monitor_competitor ga config env w c))
        = update_cache (cache w) (name c) (gather_updates env c)"
  by (simp add: monitor_competitor_def analyze_updates_def Let_def split: option.splits sum.splits)

lemma monitor_competitor_cache_bounded:
  "cache_bounded (cache w) \<Longrightarrow> cache_bounded (cache (snd (monitor_competitor ga config env w c)))"
  using monitor_competitor_cache_cases [of ga config env w c] update_cache_bounded
  by metis

lemma filter_after_commit:
  "length us \<le> 100 \<Longrightarrow> filter_new_updates (update_cache c n us) n us = []"
  by (auto simp: filter_new_updates_def update_cache_get filter_empty_conv)

text \<open>
  What holds of the filter and the commit: for at most 100 candidates the filter
  returns something exactly when a candidate's fingerprint is not in the entry, and
  after a commit from these candidates it returns nothing for them.  At the level of a
  check: when \<open>monitor_competitor\<close> returns a finding and the sources then give the same
  candidates, the next check of the competitor finds everything seen and returns no
  finding.  The candidates of a check are at most 22: ten feed entries, or fewer than
  three of them with at most 20 updates of the page or at most four of the search.
\<close>

lemma filter_new_within_100:
  assumes "length us \<le> 100"
  shows "(filter_new_updates c n us \<noteq> [])
           = (\<exists>u \<in> set us. fingerprint u \<notin> set (cache_get c (cache_key n)))
         \<and> filter_new_updates (update_cache c n us) n us = []"
  using assms by (auto simp: filter_new_updates_def update_cache_get filter_empty_conv)

lemma monitor_competitor_twice:
  assumes first: "monitor_competitor ga config env w c = (Inr (Found f), w')"
      and same: "gather_updates env' c = gather_updates env c"
      and small: "length (gather_updates env c) \<le> 100"
  shows "fst (monitor_competitor ga' config' env' w' c) = Inr AllSeen"
proof -
  from first have en: "enabled c" and ne: "gather_updates env c \<noteq> []"
    and w': "cache w' = update_cache (cache w) (name c) (gather_updates env c)"
    by (auto simp: monitor_competitor_def Let_def split: if_splits option.splits sum.splits)
  have "filter_new_updates (cache w') (name c) (gather_updates env c) = []"
    unfolding w' using small by (rule filter_after_commit)
  with en ne same show ?thesis
    by (simp add: monitor_competitor_def Let_def)
qed

lemma rss_entries_length:
  "rss_entries html_text now feed_url es = Inr us \<Longrightarrow> length us = length es"
  by (induction es arbitrary: us) (auto split: sum.splits)

lemma extract_from_rss_length:
  "length (extract_from_rss html_text now feed_url feed) \<le> 10"
  by (auto simp: extract_from_rss_def rss_body_def split: sum.splits if_splits
           dest!: rss_entries_length)

lemma extract_from_website_length:
  "length (extract_from_website now page_url fetched) \<le> 20"
  by (auto simp: extract_from_website_def website_body_def extract_structured_content_def
                 aggressive_extraction_def Let_def
           split: sum.splits py_exception.splits if_splits)

lemma gather_updates_length:
  assumes "length (rss_updates env) \<le> 10" and "length (web_updates env) \<le> 20"
      and "length (search_updates env) \<le> 4"
  shows "length (gather_updates env c) \<le> 22"
proof -
  have web: "length (filter (\<lambda>u. title u \<notin> title ` set xs) (web_updates env)) \<le> 20" for xs
    using assms(2) length_filter_le [of "\<lambda>u. title u \<notin> title ` set xs" "web_updates env"]
    by linarith
  from web [of "rss_updates env"] web [of "[]"] assms show ?thesis
    by (auto simp: gather_updates_def Let_def)
qed

text \<open>
  C2 (the code at the failing input).  The first batch has recorded a low-impact
  finding for Acme.  The feed of Acme then has a launch on top.  The check reports the
  launch as new and raises in \<open>record_finding\<close> before the cache is committed; the
  state is as it was, so for the very same candidates the filter reports the launch as
  new again, and the next check raises again.
\<close>

theorem detection_repeats_after_raise:
  "case monitor_competitor False config0 (envs_day2 1) world_day1 acme of
     (Inl e, w) \<Rightarrow>
       e = KeyError ''High''
       \<and> filter_new_updates (cache world_day1) ''Acme'' (gather_updates (envs_day2 1) acme)
           = [upd_launch]
       \<and> filter_new_updates (cache w) ''Acme'' (gather_updates (envs_day2 1) acme)
           = [upd_launch]
       \<and> (case monitor_competitor False config0 (envs_day2 1) w acme of
             (Inl e', w') \<Rightarrow> e' = KeyError ''High''
           | (Inr out, w') \<Rightarrow> False)
   | (Inr out, w) \<Rightarrow> False"
  by code_simp

lemma run_cycles_cache_bounded:
  "cache_bounded (cache w) \<Longrightarrow> cache_bounded (cache (run_cycles ga config xs w))"
proof (induction xs arbitrary: w)
  case Nil
  then show ?case by simp
next
  case (Cons x xs)
  obtain env c where x: "x = (env, c)" by (cases x)
  from Cons.prems have "cache_bounded (cache (snd (monitor_competitor ga config env w c)))"
    by (rule monitor_competitor_cache_bounded)
  then show ?case using Cons.IH x by simp
qed

lemma cache_bounded_get: "cache_bounded c \<Longrightarrow> length (cache_get c k) \<le> 100"
  by (simp add: cache_bounded_def cache_get_def split: option.splits)

text \<open>
  C3.  A cache in which every entry has at most 100 fingerprints stays so through any
  number of checks; starting from the empty cache of a first start, the entry of every
  competitor has at most 100 fingerprints after any number of checks.
\<close>

theorem cache_bound_invariant:
  "(cache_bounded (cache w) \<longrightarrow> cache_bounded (cache (run_cycles ga config xs w)))
   \<and> (cache w = Map.empty \<longrightarrow>
        length (cache_get (cache (run_cycles ga config xs w)) (cache_key n)) \<le> 100)"
proof -
  have "cache w = Map.empty \<Longrightarrow> cache_bounded (cache w)"
    by (simp add: cache_bounded_def)
  then show ?thesis
    using run_cycles_cache_bounded cache_bounded_get by blast
qed

theorem cache_bound_invariant_witness:
  "cache world0 = Map.empty
   \<and> cache_bounded (cache (run_cycles False config0 [(env_a, acme), (env_a, acme)] world0))
   \<and> length (cache_get (cache (run_cycles False config0 [(env_a, acme), (env_a, acme)] world0))
                (cache_key ''Acme'')) \<le> 100"
proof -
  have h: "cache world0 = Map.empty"
    by (simp add: world0_def)
  then have b: "cache_bounded (cache world0)"
    by (simp add: cache_bounded_def)
  from cache_bound_invariant
         [of world0 False config0 "[(env_a, acme), (env_a, acme)]" "''Acme''"] h b
  show ?thesis
    by blast
qed

text \<open>
  C4 (as stated, refuted).  The claim has the committed entry equal to the fingerprints
  of the candidates of the cycle after each cycle.  The first check of Acme commits
  the fingerprints of two feed entries.  At the next check the feed has only the first
  of them left: every candidate was seen, the check returns early, nothing is
  committed, and the entry still holds two fingerprints for one candidate.
\<close>

theorem commit_all_seen_counterexample:
  "fst (monitor_competitor False config0 env_only_a world_after_a acme) = Inr AllSeen
   \<and> length (gather_updates env_only_a acme) = 1
   \<and> length (cache_get (cache (snd (monitor_competitor False config0 env_only_a world_after_a acme)))
               (cache_key ''Acme'')) = 2
   \<and> cache_get (cache (snd (monitor_competitor False config0 env_only_a world_after_a acme)))
        (cache_key ''Acme'')
       \<noteq> map fingerprint (gather_updates env_only_a acme)"
  by code_simp

text \<open>
  C4 (amended).  After a check that returns a finding, the entry of the competitor is
  the fingerprints of all the candidates of that check, seen before or not, in the
  order they were processed, as long as there are at most 100 of them.  A check in
  which every candidate was seen before commits nothing: the cache is as it was, and
  the fingerprint of every candidate is in the entry.
\<close>

theorem commit_after_finding:
  "(is_finding (fst (monitor_competitor ga config env w c))
      \<longrightarrow> length (gather_updates env c) \<le> 100
      \<longrightarrow> cache_get (cache (snd (monitor_competitor ga config env w c))) (cache_key (name c))
            = map fingerprint (gather_updates env c))
   \<and> (fst (monitor_competitor ga config env w c) = Inr AllSeen
      \<longrightarrow> cache (snd (monitor_competitor ga config env w c)) = cache w
          \<and> set (map fingerprint (gather_updates env c))
               \<subseteq> set (cache_get (cache w) (cache_key (name c))))"
  by (auto simp: monitor_competitor_def analyze_updates_def is_finding_def Let_def
                 update_cache_get filter_new_updates_def filter_empty_conv
           split: option.splits sum.splits if_splits)

theorem commit_after_finding_witness:
  "is_finding (fst (monitor_competitor False config0 env_a world0 acme))
   \<and> length (gather_updates env_a acme) \<le> 100
   \<and> cache_get (cache (snd (monitor_competitor False config0 env_a world0 acme)))
        (cache_key (name acme))
       = map fingerprint (gather_updates env_a acme)
   \<and> fst (monitor_competitor False config0 env_only_a world_after_a acme) = Inr AllSeen
   \<and> cache (snd (monitor_competitor False config0 env_only_a world_after_a acme))
       = cache world_after_a"
proof -
  have found: "is_finding (fst (monitor_competitor False config0 env_a world0 acme))"
    by code_simp
  have small: "length (gather_updates env_a acme) \<le> 100"
    by code_simp
  have seen: "fst (monitor_competitor False config0 env_only_a world_after_a acme) = Inr AllSeen"
    by code_simp
  from commit_after_finding [of False config0 env_a world0 acme]
       commit_after_finding [of False config0 env_only_a world_after_a acme]
       found small seen
  show ?thesis
    by blast
qed

section \<open>Trend records\<close>

lemma counts_total_dict_set:
  "counts_total (dict_set d k v)
     = (case map_of d k of None \<Rightarrow> counts_total d + v | Some n \<Rightarrow> counts_total d - n + v)"
  by (induction d) (auto simp: counts_total_def split: option.splits)

lemma incr_total: "incr dd d k = Inr d' \<Longrightarrow> counts_total d' = counts_total d + 1"
  by (auto simp: incr_def counts_total_dict_set split: option.splits if_splits)

lemma py_slice_last50: "py_slice xs (Some (- 50)) None = drop (length xs - 50) xs"
  by (simp add: py_slice_def slice_index_def Let_def nat_diff_distrib' max_def)

lemma py_slice_last10: "py_slice xs (Some (- 10)) None = drop (length xs - 10) xs"
  by (simp add: py_slice_def slice_index_def Let_def nat_diff_distrib' max_def)

lemma py_slice_older:
  "20 \<le> length xs \<Longrightarrow> length (py_slice xs (Some (- 20)) (Some (- 10))) = 10"
  by (simp add: py_slice_def slice_index_def Let_def nat_diff_distrib' max_def)

text \<open>
  What holds of \<open>record_finding\<close>: a call that returns leaves a history of at most 50
  entries for the competitor (the last 50 of the old history with the new entry at its
  end), adds one to the total of its impact counters, and touches no other competitor.
\<close>

lemma record_finding_returns:
  assumes "record_finding now t n a = Inr t'"
  shows "\<exists>d'. t' n = Some d'
           \<and> length (history d') \<le> 50
           \<and> counts_total (impact_counts d')
               = (case t n of None \<Rightarrow> 0 | Some d \<Rightarrow> counts_total (impact_counts d)) + 1
           \<and> (\<forall>m. m \<noteq> n \<longrightarrow> t' m = t m)"
  using assms
  by (auto simp: record_finding_def Let_def py_slice_last50 counts_total_def[of "[]"]
           dest!: incr_total split: sum.splits option.splits if_splits)

lemma record_finding_history:
  assumes "record_finding now t n a = Inr t'"
  shows "\<exists>d'. t' n = Some d'
           \<and> history d'
               = (let h = (case t n of None \<Rightarrow> [] | Some d \<Rightarrow> history d)
                            @ [\<lparr> entry_timestamp = now, entry_impact = impact a,
                                 entry_threat_level = threat_level a,
                                 entry_summary = summary a,
                                 entry_key_features = key_features a \<rparr>]
                  in drop (length h - 50) h)"
  using assms
  by (auto simp: record_finding_def Let_def py_slice_last50
           split: sum.splits option.splits if_splits)

text \<open>
  C5 (the code at the failing input).  The first finding recorded for Acme has high
  impact; the store then holds one history entry and the counter \<open>High = 1\<close>.  The
  second finding has low impact: the counters read back from the file are a plain
  dict without the key \<open>Low\<close>, the call raises \<open>KeyError\<close> and nothing is written, so
  after two calls the counters add up to one.
\<close>

theorem record_finding_second_call_raises:
  "case record_finding ''2025-01-02T09:00:00'' Map.empty ''Acme''
          (basic_analysis ''Acme'' ''Productivity'' [upd_launch]) of
     Inl e \<Rightarrow> False
   | Inr t \<Rightarrow>
       (case t ''Acme'' of
          None \<Rightarrow> False
        | Some d \<Rightarrow> length (history d) = 1 \<and> impact_counts d = [(''High'', 1)])
       \<and> (case record_finding ''2025-01-03T09:00:00'' t ''Acme''
                  (basic_analysis ''Acme'' ''Productivity'' [upd_patch]) of
             Inl e \<Rightarrow> e = KeyError ''Low''
           | Inr t' \<Rightarrow> False)"
  by code_simp

lemma get_competitor_trends_no_history:
  "store n = None \<or> (\<exists>d. store n = Some d \<and> history d = [])
     \<Longrightarrow> get_competitor_trends store n = NoHistoricalData"
  by (auto simp: get_competitor_trends_def)

text \<open>
  C6 (as stated, refuted).  The claim has \<open>activity_trend\<close> be \<open>insufficient data\<close>
  whenever the history has fewer than 20 entries.  For a competitor whose history is
  empty, and for one that is not in the store, the result is the error record
  \<open>No historical data\<close>, which has no \<open>activity_trend\<close>.
\<close>

theorem activity_trend_counterexample:
  "length (history empty_data) < 20
   \<and> get_competitor_trends (Map.empty(''Acme'' \<mapsto> empty_data)) ''Acme'' = NoHistoricalData
   \<and> get_competitor_trends Map.empty ''Acme'' = NoHistoricalData"
  by (simp add: get_competitor_trends_def empty_data_def)

text \<open>
  C6 (amended).  For a competitor with a non-empty history the statistics are returned,
  and their \<open>activity_trend\<close> is \<open>insufficient data\<close> when the history has fewer than 20
  entries and \<open>stable\<close> otherwise: both windows then have exactly 10 entries.
\<close>

theorem activity_trend_stable:
  assumes "store n = Some data" and "history data \<noteq> []"
  shows "\<exists>st. get_competitor_trends store n = Stats st
           \<and> activity_trend st
               = (if length (history data) < 20 then ''insufficient data'' else ''stable'')"
  using assms
  by (simp add: get_competitor_trends_def Let_def py_slice_last10 py_slice_older)

theorem activity_trend_stable_witness:
  "(\<exists>st. get_competitor_trends (Map.empty(''Acme'' \<mapsto> data_of 15)) ''Acme'' = Stats st
         \<and> activity_trend st = ''insufficient data'')
   \<and> (\<exists>st. get_competitor_trends (Map.empty(''Acme'' \<mapsto> data_of 25)) ''Acme'' = Stats st
         \<and> activity_trend st = ''stable'')"
proof -
  have h15: "(Map.empty(''Acme'' \<mapsto> data_of 15)) ''Acme'' = Some (data_of 15)"
    and h25: "(Map.empty(''Acme'' \<mapsto> data_of 25)) ''Acme'' = Some (data_of 25)"
    by simp_all
  have n15: "history (data_of 15) \<noteq> []" and n25: "history (data_of 25) \<noteq> []"
    by (simp_all add: data_of_def)
  from activity_trend_stable
         [of "Map.empty(''Acme'' \<mapsto> data_of 15)" "''Acme''" "data_of 15", OF h15 n15]
       activity_trend_stable
         [of "Map.empty(''Acme'' \<mapsto> data_of 25)" "''Acme''" "data_of 25", OF h25 n25]
  show ?thesis
    by (simp add: data_of_def)
qed

section \<open>The analyzer and the batch\<close>

text \<open>
  C9.  When Gemini is not available, or gives no result, \<open>analyze_updates\<close> returns the
  rule-based analysis, for every list of updates; for the empty list that analysis has
  low impact and says that there are no recent updates.  In that configuration
  \<open>monitor_competitor\<close> never leaves through its analysis-failed branch.
\<close>

theorem analyzer_total:
  "(\<not> ga \<or> gemini_result env = None \<longrightarrow>
      analyze_updates ga (gemini_result env) n cat us = Some (basic_analysis n cat us)
      \<and> fst (monitor_competitor ga config env w c) \<noteq> Inr AnalysisFailed)
   \<and> impact (basic_analysis n cat []) = ''Low''
   \<and> summary (basic_analysis n cat []) = n @ '' has no recent updates''"
  by (auto simp: analyze_updates_def basic_analysis_def monitor_competitor_def Let_def
           split: option.splits sum.splits)

theorem analyzer_total_witness:
  "gemini_result env_a = None
   \<and> analyze_updates True (gemini_result env_a) ''Acme'' ''Productivity'' [upd_a]
       = Some (basic_analysis ''Acme'' ''Productivity'' [upd_a])
   \<and> fst (monitor_competitor True config0 env_a world0 acme) \<noteq> Inr AnalysisFailed"
proof -
  have h: "gemini_result env_a = None"
    by (simp add: env_a_def)
  from analyzer_total [of True env_a "''Acme''" "''Productivity''" "[upd_a]" config0 world0 acme] h
  show ?thesis
    by blast
qed

text \<open>
  What holds of a batch: exactly the enabled competitors are checked, in the order of
  the file and whether or not a check raises; the first and the last event of a batch
  are checks, so that no delay comes before the first check or after the last.
\<close>

lemma checked_names_append: "checked_names (xs @ ys) = checked_names xs @ checked_names ys"
  by (induction xs rule: checked_names.induct) auto

lemma monitor_competitor_trace:
  "trace (snd (monitor_competitor ga config env w c)) = trace w"
  by (simp add: monitor_competitor_def analyze_updates_def Let_def split: option.splits sum.splits)

lemma monitor_loop_checked:
  "checked_names (trace (fst (monitor_loop ga config envs n i cs (w, fs))))
     = checked_names (trace w) @ map name cs"
proof (induction cs arbitrary: w fs i)
  case Nil
  then show ?case by simp
next
  case (Cons c cs)
  let ?w0 = "w\<lparr> trace := trace w @ [Checked (name c)] \<rparr>"
  obtain r w' where r: "monitor_competitor ga config (envs i) ?w0 c = (r, w')"
    by (cases "monitor_competitor ga config (envs i) ?w0 c")
  then have tr: "trace w' = trace w @ [Checked (name c)]"
    using monitor_competitor_trace [of ga config "envs i" ?w0 c] by simp
  show ?case
    using r tr Cons.IH by (cases r) (simp_all add: checked_names_append)
qed

lemma monitor_all_checks_enabled:
  "checked_names (trace (fst (monitor_all ga config envs w)))
     = checked_names (trace w) @ map name (filter enabled (competitors w))"
  by (simp add: monitor_all_def Let_def monitor_loop_checked)

lemma monitor_loop_ends_with_check:
  assumes "cs \<noteq> []" and "i + length cs = Suc n"
  shows "is_check (last (trace (fst (monitor_loop ga config envs n i cs (w, fs)))))"
  using assms
proof (induction cs arbitrary: w fs i)
  case Nil
  then show ?case by simp
next
  case (Cons c cs)
  let ?w0 = "w\<lparr> trace := trace w @ [Checked (name c)] \<rparr>"
  obtain r w' where r: "monitor_competitor ga config (envs i) ?w0 c = (r, w')"
    by (cases "monitor_competitor ga config (envs i) ?w0 c")
  then have tr: "trace w' = trace w @ [Checked (name c)]"
    using monitor_competitor_trace [of ga config "envs i" ?w0 c] by simp
  show ?case
  proof (cases "cs = []")
    case True
    with Cons.prems have "\<not> i < n" by simp
    with True r tr show ?thesis by (cases r) (simp_all add: is_check_def)
  next
    case False
    with Cons.prems have "Suc i + length cs = Suc n" by simp
    from Cons.IH [OF False this] r show ?thesis by (cases r) simp_all
  qed
qed

lemma monitor_loop_extends_trace:
  "\<exists>rest. trace (fst (monitor_loop ga config envs n i cs (w, fs))) = trace w @ rest"
proof (induction cs arbitrary: w fs i)
  case Nil
  then show ?case by simp
next
  case (Cons c cs)
  let ?w0 = "w\<lparr> trace := trace w @ [Checked (name c)] \<rparr>"
  obtain r w' where r: "monitor_competitor ga config (envs i) ?w0 c = (r, w')"
    by (cases "monitor_competitor ga config (envs i) ?w0 c")
  then have tr: "trace w' = trace w @ [Checked (name c)]"
    using monitor_competitor_trace [of ga config "envs i" ?w0 c] by simp
  show ?case
  proof (cases r)
    case (Inl e)
    with r tr Cons.IH [of "Suc i" w' fs] show ?thesis by auto
  next
    case (Inr out)
    let ?w2 = "if i < n then w'\<lparr> trace := trace w' @ [Slept (rate_limit_seconds config)] \<rparr> else w'"
    let ?fs = "case result_of out of None \<Rightarrow> fs | Some f \<Rightarrow> fs @ [f]"
    from Cons.IH [of "Suc i" ?w2 ?fs] obtain rest where
      "trace (fst (monitor_loop ga config envs n (Suc i) cs (?w2, ?fs))) = trace ?w2 @ rest"
      by blast
    with r tr Inr show ?thesis by auto
  qed
qed

lemma monitor_loop_starts_with_check:
  assumes "trace w = []" and "cs \<noteq> []"
  shows "is_check (hd (trace (fst (monitor_loop ga config envs n i cs (w, fs)))))"
proof -
  from assms obtain c cs' where cs: "cs = c # cs'"
    by (cases cs) auto
  let ?w0 = "w\<lparr> trace := trace w @ [Checked (name c)] \<rparr>"
  obtain r w' where r: "monitor_competitor ga config (envs i) ?w0 c = (r, w')"
    by (cases "monitor_competitor ga config (envs i) ?w0 c")
  then have tr: "trace w' = [Checked (name c)]"
    using monitor_competitor_trace [of ga config "envs i" ?w0 c] assms by simp
  show ?thesis
  proof (cases r)
    case (Inl e)
    from monitor_loop_extends_trace [of ga config envs n "Suc i" cs' w' fs] r tr Inl cs
    show ?thesis by (auto simp: is_check_def)
  next
    case (Inr out)
    let ?w2 = "if i < n then w'\<lparr> trace := trace w' @ [Slept (rate_limit_seconds config)] \<rparr> else w'"
    let ?fs = "case result_of out of None \<Rightarrow> fs | Some f \<Rightarrow> fs @ [f]"
    from monitor_loop_extends_trace [of ga config envs n "Suc i" cs' ?w2 ?fs] r tr Inr cs
    show ?thesis by (auto simp: is_check_def)
  qed
qed

text \<open>
  The first batch of the run below: both checks return, and the delay is between them.
  In the second batch the check of Acme raises.
\<close>

lemma first_batch_trace:
  "trace (fst (monitor_all False config0 envs_day1 world_ab))
     = [Checked ''Acme'', Slept 2, Checked ''Bolt'']"
  by code_simp

lemma second_batch_acme_raises:
  "case monitor_competitor False config0 (envs_day2 1)
          ((fst (monitor_all False config0 envs_day1 world_ab))\<lparr> trace := [] \<rparr>) acme of
     (Inl e, w) \<Rightarrow> e = KeyError ''High''
   | (Inr out, w) \<Rightarrow> False"
  by code_simp

text \<open>
  C8 (the code at the failing input).  Acme and Bolt are enabled.  The first batch
  records a low-impact finding for Acme.  In the second batch the check of Acme finds
  a launch, of high impact, and \<open>record_finding\<close> raises \<open>KeyError\<close>; the batch goes on
  to Bolt and returns its finding, and \<open>time.sleep\<close> is not called between the two
  checks.
\<close>

theorem monitor_all_no_delay_after_failure:
  "case monitor_all False config0 envs_day2
          ((fst (monitor_all False config0 envs_day1 world_ab))\<lparr> trace := [] \<rparr>) of
     (w, findings) \<Rightarrow>
       trace w = [Checked ''Acme'', Checked ''Bolt'']
       \<and> map (\<lambda>f. name (found_competitor f)) findings = [''Bolt'']"
  by code_simp

section \<open>Content extraction\<close>

text \<open>
  C7 (as stated, refuted).  The claim has feed extraction return the empty sequence for
  a malformed feed.  The parser flags a feed that is cut off and keeps the entries it
  read; \<open>extract_from_rss\<close> does not look at the flag and returns an update for each.
\<close>

theorem malformed_feed_counterexample:
  "bozo truncated_feed
   \<and> map title (extract_from_rss (\<lambda>s. Inr s) ''2025-01-02T09:00:00''
                  ''https://acme.example/feed'' (Inr truncated_feed))
       = [''v1.0 released'', ''v2.0 released'']"
  by (simp add: truncated_feed_def entry_v1_def entry_v2_def extract_from_rss_def rss_body_def
                rss_entry_def mk_update_def)

text \<open>
  C7 (amended).  Neither extraction lets an exception through.  Feed extraction returns
  the empty list when fetching or parsing the feed raised, when the feed has no
  entries, and when anything in the body of its \<open>try\<close> raised; page extraction returns
  the empty list when the request raised (a timeout, any request error), when the
  response has an HTTP error status, and when anything in the body of its \<open>try\<close>
  raised.  A feed that the parser flags as malformed is treated as any other feed: the
  result does not depend on the flag.
\<close>

theorem extractor_never_raises:
  "extract_from_rss html_text now feed_url (Inl e1) = []
   \<and> extract_from_rss html_text now feed_url (Inr \<lparr> bozo = b, entries = [] \<rparr>) = []
   \<and> (rss_body html_text now feed_url feed = Inl e2
        \<longrightarrow> extract_from_rss html_text now feed_url feed = [])
   \<and> extract_from_rss html_text now feed_url (Inr \<lparr> bozo = True, entries = es \<rparr>)
       = extract_from_rss html_text now feed_url (Inr \<lparr> bozo = False, entries = es \<rparr>)
   \<and> extract_from_website now page_url (Inl e3) = []
   \<and> (400 \<le> status_code r \<and> status_code r < 600
        \<longrightarrow> extract_from_website now page_url (Inr r) = [])
   \<and> (website_body now page_url fetched = Inl e4
        \<longrightarrow> extract_from_website now page_url fetched = [])"
  by (auto simp: extract_from_rss_def rss_body_def extract_from_website_def website_body_def
           split: py_exception.splits)

theorem extractor_never_raises_witness:
  "rss_body (\<lambda>s. Inl (Exception ''parser'')) ''2025-01-02T09:00:00'' ''https://acme.example/feed''
       (Inr truncated_feed) = Inl (Exception ''parser'')
   \<and> extract_from_rss (\<lambda>s. Inl (Exception ''parser'')) ''2025-01-02T09:00:00''
       ''https://acme.example/feed'' (Inr truncated_feed) = []
   \<and> extract_from_website ''2025-01-02T09:00:00'' ''https://acme.example/releases'' (Inl Timeout) = []
   \<and> status_code \<lparr> status_code = 404, document = releases_page \<rparr> = 404
   \<and> website_body ''2025-01-02T09:00:00'' ''https://acme.example/releases''
       (Inr \<lparr> status_code = 404, document = releases_page \<rparr>) = Inl (RequestException ''HTTPError'')
   \<and> extract_from_website ''2025-01-02T09:00:00'' ''https://acme.example/releases''
       (Inr \<lparr> status_code = 404, document = releases_page \<rparr>) = []"
proof -
  let ?now = "''2025-01-02T09:00:00''"
  let ?ht = "\<lambda>s :: string. (Inl (Exception ''parser'') :: py_exception + string)"
  let ?nf = "\<lparr> status_code = 404, document = releases_page \<rparr>"
  have feed: "rss_body ?ht ?now ''https://acme.example/feed'' (Inr truncated_feed)
                = Inl (Exception ''parser'')"
    by (simp add: rss_body_def rss_entry_def truncated_feed_def entry_v1_def entry_v2_def)
  have status: "status_code ?nf = 404" "400 \<le> status_code ?nf \<and> status_code ?nf < 600"
    by simp_all
  have page: "website_body ?now ''https://acme.example/releases'' (Inr ?nf)
                = Inl (RequestException ''HTTPError'')"
    by (simp add: website_body_def)
  from extractor_never_raises
         [of ?ht ?now "''https://acme.example/feed''" Timeout False "Inr truncated_feed"
             "Exception ''parser''" "[]" "''https://acme.example/releases''" Timeout ?nf
             "Inr ?nf" "RequestException ''HTTPError''"]
       feed status page
  show ?thesis
    by blast
qed

text \<open>
  An exception from inside the body of the \<open>try\<close>: on a page with a menu inside a
  navigation block, both with a \<open>role\<close>, \<open>_clean_soup\<close> raises, and page extraction
  returns the empty list although the page has a heading.
\<close>

lemma clean_soup_nested_roles:
  "clean_soup nested_roles_page = Inl (AttributeError ''get'')
   \<and> extract_from_website ''2025-01-02T09:00:00'' ''https://acme.example/releases''
       (Inr \<lparr> status_code = 200, document = nested_roles_page \<rparr>) = []"
  by code_simp

text \<open>
  What holds of the titles: every update of the container tier, of the heading tier
  and of the aggressive fallback has a non-empty title of at most 250 characters, every
  update of the list tier has a title of at most 250 characters, and an update of
  feed extraction has the title of the feed entry as it is.
\<close>

lemma split_ws_aux_words: "w \<in> set (split_ws_aux cur s) \<Longrightarrow> w \<noteq> []"
  by (induction cur s rule: split_ws_aux.induct) (auto split: if_splits)

lemma split_ws_aux_nonempty: "cur \<noteq> [] \<Longrightarrow> split_ws_aux cur s \<noteq> []"
  by (induction cur s rule: split_ws_aux.induct) (auto split: if_splits)

lemma split_ws_nonempty: "s \<noteq> [] \<Longrightarrow> \<not> isspace (hd s) \<Longrightarrow> split_ws s \<noteq> []"
  by (cases s) (auto simp: split_ws_def split_ws_aux_nonempty)

lemma join_nonempty: "xs \<noteq> [] \<Longrightarrow> hd xs \<noteq> [] \<Longrightarrow> join sep xs \<noteq> []"
  by (induction sep xs rule: join.induct) auto

lemma join_hd: "xs \<noteq> [] \<Longrightarrow> hd xs \<noteq> [] \<Longrightarrow> hd (join sep xs) = hd (hd xs)"
  by (induction sep xs rule: join.induct) auto

lemma strip_hd: "strip s \<noteq> [] \<Longrightarrow> \<not> isspace (hd (strip s))"
proof -
  assume ne: "strip s \<noteq> []"
  let ?t = "dropWhile isspace s"
  from ne have "dropWhile isspace (rev ?t) \<noteq> []"
    by (simp add: strip_def)
  then have "?t \<noteq> []"
    by (cases "dropWhile isspace s") simp_all
  then obtain c cs where cs: "?t = c # cs"
    by (cases ?t) auto
  then have c: "\<not> isspace c"
    using hd_dropWhile [of isspace s] by simp
  then have "dropWhile isspace (rev cs @ [c]) = dropWhile isspace (rev cs) @ [c]"
    by (rule dropWhile_append3)
  then have "strip s = c # rev (dropWhile isspace (rev cs))"
    using cs by (simp add: strip_def)
  with c show ?thesis
    by simp
qed

lemma get_text_hd: "get_text sep x \<noteq> [] \<Longrightarrow> \<not> isspace (hd (get_text sep x))"
proof -
  assume ne: "get_text sep x \<noteq> []"
  let ?ts = "filter (\<lambda>t. t \<noteq> []) (map strip (strings x))"
  have ts: "?ts \<noteq> []" using ne by (auto simp: get_text_def)
  then have "hd ?ts \<in> set ?ts" by (rule hd_in_set)
  then obtain s where s: "hd ?ts = strip s" "strip s \<noteq> []" by auto
  have "hd (get_text sep x) = hd (hd ?ts)"
    unfolding get_text_def using ts s by (intro join_hd) auto
  then show ?thesis using s strip_hd by simp
qed

lemma aggressive_div_title:
  assumes "aggressive_div now page_url d = Some u"
  shows "title u \<noteq> [] \<and> length (title u) \<le> 250"
proof -
  let ?text = "get_text '' '' d"
  from assms have len: "20 \<le> length ?text"
    and u: "title u = take 250 (join '' '' (take 15 (split_ws ?text)))"
    by (auto simp: aggressive_div_def Let_def mk_update_def split: if_splits)
  from len have ne: "?text \<noteq> []" by auto
  then have "split_ws ?text \<noteq> []"
    using get_text_hd split_ws_nonempty by blast
  moreover have "hd (split_ws ?text) \<noteq> []"
    using calculation split_ws_aux_words [of "hd (split_ws ?text)" "[]" ?text]
    by (simp add: split_ws_def)
  ultimately have "join '' '' (take 15 (split_ws ?text)) \<noteq> []"
    by (intro join_nonempty) (auto simp: hd_take)
  then show ?thesis using u by simp
qed

lemma aggressive_heading_title:
  "aggressive_heading now page_url h = Some u \<Longrightarrow> title u \<noteq> [] \<and> length (title u) \<le> 250"
  by (auto simp: aggressive_heading_def Let_def mk_update_def split: if_splits)

lemma aggressive_paragraph_title:
  "aggressive_paragraph now page_url p = Some u \<Longrightarrow> title u \<noteq> [] \<and> length (title u) \<le> 250"
  by (auto simp: aggressive_paragraph_def Let_def mk_update_def split: if_splits option.splits)

lemma extract_from_container_title:
  "extract_from_container now c page_url = Some u \<Longrightarrow> title u \<noteq> [] \<and> length (title u) \<le> 250"
  by (auto simp: extract_from_container_def Let_def mk_update_def split: if_splits option.splits)

lemma extract_from_heading_title:
  "extract_from_heading now h page_url = Some u \<Longrightarrow> title u \<noteq> [] \<and> length (title u) \<le> 250"
  by (auto simp: extract_from_heading_def Let_def mk_update_def split: if_splits option.splits)

lemma extract_from_list_item_title:
  "extract_from_list_item now li page_url = Some u \<Longrightarrow> length (title u) \<le> 250"
  by (auto simp: extract_from_list_item_def Let_def mk_update_def split: if_splits option.splits prod.splits)

lemma add_unique_set: "u \<in> set (add_unique acc r) \<Longrightarrow> u \<in> set acc \<or> r = Some u"
  by (auto simp: add_unique_def split: option.splits if_splits)

lemma collect_set:
  "u \<in> set (collect f xs acc) \<Longrightarrow> u \<in> set acc \<or> (\<exists>x \<in> set xs. f x = Some u)"
  unfolding collect_def
  by (induction xs arbitrary: acc) (auto dest!: add_unique_set)

lemma aggressive_extraction_titles:
  assumes "u \<in> set (aggressive_extraction now soup page_url)"
  shows "title u \<noteq> [] \<and> length (title u) \<le> 250"
proof -
  from assms have "(\<exists>h. aggressive_heading now page_url h = Some u)
      \<or> (\<exists>p. aggressive_paragraph now page_url p = Some u)
      \<or> (\<exists>d. aggressive_div now page_url d = Some u)"
    by (auto simp: aggressive_extraction_def Let_def split: if_splits dest!: in_set_takeD collect_set)
  then show ?thesis
    using aggressive_heading_title aggressive_paragraph_title aggressive_div_title by blast
qed

lemma extract_structured_content_titles:
  assumes "u \<in> set (extract_structured_content now soup page_url)"
  shows "length (title u) \<le> 250"
proof -
  from assms have "(\<exists>c. extract_from_container now c page_url = Some u)
      \<or> (\<exists>h. extract_from_heading now h page_url = Some u)
      \<or> (\<exists>li. extract_from_list_item now li page_url = Some u)"
    by (auto simp: extract_structured_content_def Let_def split: if_splits dest!: in_set_takeD collect_set)
  then show ?thesis
    using extract_from_container_title extract_from_heading_title extract_from_list_item_title
    by blast
qed

lemma rss_entry_title:
  "rss_entry html_text now feed_url e = Inr u
     \<Longrightarrow> title u = (case feed_title e of None \<Rightarrow> ''Untitled'' | Some x \<Rightarrow> x)"
  by (auto simp: rss_entry_def Let_def mk_update_def split: sum.splits if_splits)

text \<open>
  C10 (the code at the failing input).  A list item whose first link holds only an
  image: the link is taken as the heading of the item, its text is empty, and the
  update gets the empty title.  The page is a list with this one item; page extraction
  returns one update, and its title is empty.
\<close>

theorem list_item_empty_title:
  "map title (extract_from_website ''2025-01-02T09:00:00'' ''https://acme.example/releases''
                (Inr \<lparr> status_code = 200, document = releases_page \<rparr>)) = ['''']
   \<and> map title (case extract_from_list_item ''2025-01-02T09:00:00'' item_with_icon_link
                          ''https://acme.example/releases'' of
                  None \<Rightarrow> [] | Some u \<Rightarrow> [u]) = ['''']"
  by code_simp

end
